theory Spec2Isabelle
  imports Complex_Main "HOL-Library.AList"
begin

section \<open>JavaScript numbers\<close>

text \<open>
  A bed count is a JavaScript number, that is an IEEE 754 double: the request schema admits
  whole numbers only, but the storage methods keep whatever number they are given and the
  directory sync passes on what the remote JSON holds. \<open>Fin r\<close> is the double of value \<open>r\<close>
  (the two zeros are not told apart, as \<open>===\<close> does not tell them apart either).

  \<open>roundDouble\<close> rounds a rational to the nearest double, ties to the even significand.
  \<open>ulp x\<close> is the spacing of the doubles around \<open>x \<ge> 0\<close>: it is 1 on \<open>[2^52, 2^53)\<close>, doubles
  with each binade above (971 times up to the largest finite double) and halves with each
  binade below (1074 times down to the subnormal spacing). The powers of two are written
  out, so that the definitions evaluate quickly: \<open>2^52 = 4503599627370496\<close>,
  \<open>2^53 = 9007199254740992\<close>, and \<open>overflowBound\<close> is \<open>2^1024\<close>, the least magnitude that
  is no longer finite.
\<close>

datatype jsnum = Fin rat | PosInfinity | NegInfinity | NaN

fun ulpUp :: "nat \<Rightarrow> rat \<Rightarrow> rat \<Rightarrow> rat" where
  "ulpUp 0 q x = q"
| "ulpUp (Suc n) q x = (if x < 9007199254740992 * q then q else ulpUp n (2 * q) x)"

fun ulpDown :: "nat \<Rightarrow> rat \<Rightarrow> rat \<Rightarrow> rat" where
  "ulpDown 0 q x = q"
| "ulpDown (Suc n) q x = (if 4503599627370496 * q \<le> x then q else ulpDown n (q / 2) x)"

definition ulp :: "rat \<Rightarrow> rat" where
  "ulp x = (if 9007199254740992 \<le> x then ulpUp 971 1 x else ulpDown 1074 1 x)"

definition roundHalfEven :: "rat \<Rightarrow> int" where
  "roundHalfEven y =
     (let f = \<lfloor>y\<rfloor>; d = y - of_int f
      in if d < 1 / 2 then f else if 1 / 2 < d then f + 1 else if even f then f else f + 1)"

definition overflowBound :: rat where
  "overflowBound =
     179769313486231590772930519078902473361797697894230657273430081157732675805500963132708477322407536021120113879871393357658789768814416622492847430639474124377767893424865485276302219601246094119453082952085005768838150682342462881473913110540827237163350510684586298239947245938479716304835356329624224137216"

definition roundDouble :: "rat \<Rightarrow> jsnum" where
  "roundDouble r =
     (if r = 0 then Fin 0
      else
        (let q = ulp \<bar>r\<bar>; v = of_int (roundHalfEven (r / q)) * q
         in if overflowBound \<le> v then PosInfinity
            else if v \<le> - overflowBound then NegInfinity
            else Fin v))"

text \<open>The operators \<open>+\<close>, \<open>-\<close>, \<open><=\<close> and \<open><\<close> on numbers.\<close>

fun jsAdd :: "jsnum \<Rightarrow> jsnum \<Rightarrow> jsnum" where
  "jsAdd (Fin a) (Fin b) = roundDouble (a + b)"
| "jsAdd NaN y = NaN"
| "jsAdd x NaN = NaN"
| "jsAdd PosInfinity NegInfinity = NaN"
| "jsAdd NegInfinity PosInfinity = NaN"
| "jsAdd PosInfinity y = PosInfinity"
| "jsAdd x PosInfinity = PosInfinity"
| "jsAdd NegInfinity y = NegInfinity"
| "jsAdd x NegInfinity = NegInfinity"

fun jsNeg :: "jsnum \<Rightarrow> jsnum" where
  "jsNeg (Fin a) = Fin (- a)"
| "jsNeg PosInfinity = NegInfinity"
| "jsNeg NegInfinity = PosInfinity"
| "jsNeg NaN = NaN"

definition jsSub :: "jsnum \<Rightarrow> jsnum \<Rightarrow> jsnum" where
  "jsSub x y = jsAdd x (jsNeg y)"

fun jsLessEq :: "jsnum \<Rightarrow> jsnum \<Rightarrow> bool" where
  "jsLessEq (Fin a) (Fin b) = (a \<le> b)"
| "jsLessEq NaN y = False"
| "jsLessEq x NaN = False"
| "jsLessEq NegInfinity y = True"
| "jsLessEq x PosInfinity = True"
| "jsLessEq x y = False"

fun jsLess :: "jsnum \<Rightarrow> jsnum \<Rightarrow> bool" where
  "jsLess (Fin a) (Fin b) = (a < b)"
| "jsLess NaN y = False"
| "jsLess x NaN = False"
| "jsLess PosInfinity y = False"
| "jsLess x NegInfinity = False"
| "jsLess x y = True"

text \<open>
  A whole count: a whole number from 0 to \<open>2^53\<close>, the range on which adding and taking away
  one are exact. \<open>countOf\<close> reads it as an integer.
\<close>

definition wholeCount :: "jsnum \<Rightarrow> bool" where
  "wholeCount x =
     (case x of
        Fin r \<Rightarrow> r = of_int \<lfloor>r\<rfloor> \<and> 0 \<le> r \<and> r \<le> 9007199254740992
      | _ \<Rightarrow> False)"

definition countOf :: "jsnum \<Rightarrow> int" where
  "countOf x = (case x of Fin r \<Rightarrow> \<lfloor>r\<rfloor> | _ \<Rightarrow> 0)"

section \<open>Data model (shared schema)\<close>

text \<open>
  The tables of the shared schema. Ids are \<open>int\<close>: they come from counters that start at 1
  and go up by one, and stay far below \<open>2^53\<close>, where \<open>++\<close> is exact (a \<open>Map\<close> cannot hold
  that many entries). Bed counts are \<open>jsnum\<close>. The price is only stored, never computed
  with. A nullable or optional column is an \<open>option\<close>. Every record field carries the name
  of its table as a prefix, because HOL field names are global.

  The one field that can hold something other than a number at run time is a bed's
  \<open>bedTypeId\<close>: the directory sync reads it out of a plain object used as a dictionary, and a
  plain object answers the keys \<open>constructor\<close> and \<open>__proto__\<close> from its prototype.
  \<open>jsval\<close> is the set of values such a lookup can give.
\<close>

datatype jsval = Num int | ObjectConstructor | ObjectPrototype

record hospital =
  hospital_id :: int
  hospital_username :: string
  hospital_password :: string
  hospital_name :: string
  hospital_email :: string
  hospital_address :: string
  hospital_city :: string
  hospital_state :: string
  hospital_zipCode :: string
  hospital_phone :: string
  hospital_website :: "string option"
  hospital_latitude :: "string option"
  hospital_longitude :: "string option"
  hospital_approved :: bool

record insertHospital =
  ih_username :: string
  ih_password :: string
  ih_name :: string
  ih_email :: string
  ih_address :: string
  ih_city :: string
  ih_state :: string
  ih_zipCode :: string
  ih_phone :: string
  ih_website :: "string option"
  ih_latitude :: "string option"
  ih_longitude :: "string option"

record bedType =
  bedType_id :: int
  bedType_name :: string
  bedType_description :: "string option"
  bedType_icon :: "string option"

record insertBedType =
  ibt_name :: string
  ibt_description :: "string option"
  ibt_icon :: "string option"

record bed =
  bed_id :: int
  bed_hospitalId :: int
  bed_bedTypeId :: jsval
  bed_totalBeds :: jsnum
  bed_availableBeds :: jsnum
  bed_pricePerNight :: "int option"

text \<open>\<open>InsertBed\<close>: \<open>pricePerNight\<close> may be absent (\<open>None\<close>), null (\<open>Some None\<close>) or a number.\<close>

record insertBed =
  ib_hospitalId :: int
  ib_bedTypeId :: jsval
  ib_totalBeds :: jsnum
  ib_availableBeds :: jsnum
  ib_pricePerNight :: "int option option"

text \<open>\<open>Partial<InsertBed>\<close>: every field may be absent.\<close>

record partialBed =
  pb_hospitalId :: "int option"
  pb_bedTypeId :: "jsval option"
  pb_totalBeds :: "jsnum option"
  pb_availableBeds :: "jsnum option"
  pb_pricePerNight :: "int option option"

record booking =
  booking_id :: int
  booking_userId :: int
  booking_hospitalId :: int
  booking_bedTypeId :: int
  booking_patientName :: string
  booking_patientPhone :: "string option"
  booking_notes :: "string option"
  booking_status :: string
  booking_createdAt :: nat

text \<open>\<open>InsertBooking\<close>: \<open>status\<close>, \<open>patientPhone\<close> and \<open>notes\<close> are optional.\<close>

record insertBooking =
  ibk_userId :: int
  ibk_hospitalId :: int
  ibk_bedTypeId :: int
  ibk_patientName :: string
  ibk_patientPhone :: "string option"
  ibk_notes :: "string option"
  ibk_status :: "string option"

section \<open>The in-memory store (server/storage.ts)\<close>

text \<open>
  A JavaScript \<open>Map\<close> keeps its entries in insertion order; \<open>set\<close> on a key that is present
  replaces the value where it stands, \<open>set\<close> on a new key appends. That is an association list
  under \<open>AList.update\<close>. \<open>Array.from(m.values()).find(p)\<close> is the first value, in that order,
  that satisfies \<open>p\<close>.
\<close>

type_synonym 'v jsmap = "(int \<times> 'v) list"

definition Map_get :: "'v jsmap \<Rightarrow> int \<Rightarrow> 'v option" where
  "Map_get m k = map_of m k"

definition Map_set :: "int \<Rightarrow> 'v \<Rightarrow> 'v jsmap \<Rightarrow> 'v jsmap" where
  "Map_set k v m = AList.update k v m"

definition Map_values :: "'v jsmap \<Rightarrow> 'v list" where
  "Map_values m = map snd m"

text \<open>
  \<open>String.prototype.toLowerCase\<close> on ASCII strings: the letters \<open>A\<close> to \<open>Z\<close> are lowered and
  every other byte is left as it is. Strings are byte strings here, so a cased letter outside
  ASCII, which JavaScript lowers too, is not lowered by this function; the names compared
  below are taken to be ASCII.
\<close>

definition lowerChar :: "char \<Rightarrow> char" where
  "lowerChar c =
     (let n = (of_char c :: nat) in if 65 \<le> n \<and> n \<le> 90 then char_of (n + 32) else c)"

definition toLowerCase :: "string \<Rightarrow> string" where
  "toLowerCase s = map lowerChar s"

text \<open>The users table takes no part in what follows and is left out of the state.\<close>

record storage =
  hospitals :: "hospital jsmap"
  bedTypes :: "bedType jsmap"
  beds :: "bed jsmap"
  bookings :: "booking jsmap"
  hospitalCurrentId :: int
  bedTypeCurrentId :: int
  bedCurrentId :: int
  bookingCurrentId :: int

subsection \<open>Hospital methods\<close>

definition getHospital :: "storage \<Rightarrow> int \<Rightarrow> hospital option" where
  "getHospital s i = Map_get (hospitals s) i"

definition getHospitalByUsername :: "storage \<Rightarrow> string \<Rightarrow> hospital option" where
  "getHospitalByUsername s username =
     List.find (\<lambda>h. toLowerCase (hospital_username h) = toLowerCase username)
       (Map_values (hospitals s))"

definition createHospital :: "storage \<Rightarrow> insertHospital \<Rightarrow> hospital \<times> storage" where
  "createHospital s ih =
     (let i = hospitalCurrentId s;
          s1 = s\<lparr>hospitalCurrentId := i + 1\<rparr>;
          h = \<lparr>hospital_id = i,
               hospital_username = ih_username ih,
               hospital_password = ih_password ih,
               hospital_name = ih_name ih,
               hospital_email = ih_email ih,
               hospital_address = ih_address ih,
               hospital_city = ih_city ih,
               hospital_state = ih_state ih,
               hospital_zipCode = ih_zipCode ih,
               hospital_phone = ih_phone ih,
               hospital_website = ih_website ih,
               hospital_latitude = ih_latitude ih,
               hospital_longitude = ih_longitude ih,
               hospital_approved = False\<rparr>
      in (h, s1\<lparr>hospitals := Map_set i h (hospitals s1)\<rparr>))"

definition updateHospitalApproval :: "storage \<Rightarrow> int \<Rightarrow> bool \<Rightarrow> hospital option \<times> storage" where
  "updateHospitalApproval s i approved =
     (case getHospital s i of
        None \<Rightarrow> (None, s)
      | Some h \<Rightarrow>
          (let updatedHospital = h\<lparr>hospital_approved := approved\<rparr>
           in (Some updatedHospital, s\<lparr>hospitals := Map_set i updatedHospital (hospitals s)\<rparr>)))"

definition getAllHospitals :: "storage \<Rightarrow> hospital list" where
  "getAllHospitals s = Map_values (hospitals s)"

definition getApprovedHospitals :: "storage \<Rightarrow> hospital list" where
  "getApprovedHospitals s = filter hospital_approved (Map_values (hospitals s))"

subsection \<open>Bed type methods\<close>

definition getBedTypeByName :: "storage \<Rightarrow> string \<Rightarrow> bedType option" where
  "getBedTypeByName s name =
     List.find (\<lambda>t. toLowerCase (bedType_name t) = toLowerCase name) (Map_values (bedTypes s))"

definition createBedType :: "storage \<Rightarrow> insertBedType \<Rightarrow> bedType \<times> storage" where
  "createBedType s ibt =
     (let i = bedTypeCurrentId s;
          s1 = s\<lparr>bedTypeCurrentId := i + 1\<rparr>;
          t = \<lparr>bedType_id = i,
               bedType_name = ibt_name ibt,
               bedType_description = ibt_description ibt,
               bedType_icon = ibt_icon ibt\<rparr>
      in (t, s1\<lparr>bedTypes := Map_set i t (bedTypes s1)\<rparr>))"

definition getAllBedTypes :: "storage \<Rightarrow> bedType list" where
  "getAllBedTypes s = Map_values (bedTypes s)"

subsection \<open>Bed methods\<close>

definition getBed :: "storage \<Rightarrow> int \<Rightarrow> bed option" where
  "getBed s i = Map_get (beds s) i"

definition getBedsByHospital :: "storage \<Rightarrow> int \<Rightarrow> bed list" where
  "getBedsByHospital s hospitalId =
     filter (\<lambda>b. bed_hospitalId b = hospitalId) (Map_values (beds s))"

text \<open>\<open>createBed\<close> has no check of its own: it takes the next id and stores the record.\<close>

definition createBed :: "storage \<Rightarrow> insertBed \<Rightarrow> bed \<times> storage" where
  "createBed s ib =
     (let i = bedCurrentId s;
          s1 = s\<lparr>bedCurrentId := i + 1\<rparr>;
          b = \<lparr>bed_id = i,
               bed_hospitalId = ib_hospitalId ib,
               bed_bedTypeId = ib_bedTypeId ib,
               bed_totalBeds = ib_totalBeds ib,
               bed_availableBeds = ib_availableBeds ib,
               bed_pricePerNight = (case ib_pricePerNight ib of None \<Rightarrow> None | Some p \<Rightarrow> p)\<rparr>
      in (b, s1\<lparr>beds := Map_set i b (beds s1)\<rparr>))"

text \<open>The object spread \<open>{ ...bed, ...bedData }\<close>: a field present in \<open>bedData\<close> wins.\<close>

definition spreadBed :: "bed \<Rightarrow> partialBed \<Rightarrow> bed" where
  "spreadBed b d =
     b\<lparr>bed_hospitalId := (case pb_hospitalId d of None \<Rightarrow> bed_hospitalId b | Some x \<Rightarrow> x),
       bed_bedTypeId := (case pb_bedTypeId d of None \<Rightarrow> bed_bedTypeId b | Some x \<Rightarrow> x),
       bed_totalBeds := (case pb_totalBeds d of None \<Rightarrow> bed_totalBeds b | Some x \<Rightarrow> x),
       bed_availableBeds := (case pb_availableBeds d of None \<Rightarrow> bed_availableBeds b | Some x \<Rightarrow> x),
       bed_pricePerNight := (case pb_pricePerNight d of None \<Rightarrow> bed_pricePerNight b | Some x \<Rightarrow> x)\<rparr>"

definition updateBed :: "storage \<Rightarrow> int \<Rightarrow> partialBed \<Rightarrow> bed option \<times> storage" where
  "updateBed s i bedData =
     (case getBed s i of
        None \<Rightarrow> (None, s)
      | Some b \<Rightarrow>
          (let updatedBed = spreadBed b bedData
           in (Some updatedBed, s\<lparr>beds := Map_set i updatedBed (beds s)\<rparr>)))"

definition getBedByHospitalAndType :: "storage \<Rightarrow> int \<Rightarrow> jsval \<Rightarrow> bed option" where
  "getBedByHospitalAndType s hospitalId bedTypeId =
     List.find (\<lambda>b. bed_hospitalId b = hospitalId \<and> bed_bedTypeId b = bedTypeId)
       (Map_values (beds s))"

text \<open>The argument of \<open>updateBed\<close> that sets \<open>availableBeds\<close> alone.\<close>

definition onlyAvailable :: "jsnum \<Rightarrow> partialBed" where
  "onlyAvailable n =
     \<lparr>pb_hospitalId = None, pb_bedTypeId = None, pb_totalBeds = None,
      pb_availableBeds = Some n, pb_pricePerNight = None\<rparr>"

subsection \<open>Booking methods\<close>

definition getBooking :: "storage \<Rightarrow> int \<Rightarrow> booking option" where
  "getBooking s i = Map_get (bookings s) i"

text \<open>\<open>x || null\<close> on an optional string: absent, null and the empty string all give null.\<close>

definition orNull :: "string option \<Rightarrow> string option" where
  "orNull x = (case x of None \<Rightarrow> None | Some v \<Rightarrow> if v = [] then None else Some v)"

text \<open>
  \<open>createBooking\<close> stores the booking first and then lowers the count of the first bed of the
  pair, when there is one and its count is positive. \<open>now\<close> is the value of \<open>new Date()\<close>.
\<close>

definition createBooking :: "storage \<Rightarrow> insertBooking \<Rightarrow> nat \<Rightarrow> booking \<times> storage" where
  "createBooking s ibk now =
     (let i = bookingCurrentId s;
          s1 = s\<lparr>bookingCurrentId := i + 1\<rparr>;
          bk = \<lparr>booking_id = i,
                booking_userId = ibk_userId ibk,
                booking_hospitalId = ibk_hospitalId ibk,
                booking_bedTypeId = ibk_bedTypeId ibk,
                booking_patientName = ibk_patientName ibk,
                booking_patientPhone = orNull (ibk_patientPhone ibk),
                booking_notes = orNull (ibk_notes ibk),
                booking_status =
                  (case ibk_status ibk of None \<Rightarrow> ''pending''
                   | Some st \<Rightarrow> if st = [] then ''pending'' else st),
                booking_createdAt = now\<rparr>;
          s2 = s1\<lparr>bookings := Map_set i bk (bookings s1)\<rparr>
      in case getBedByHospitalAndType s2 (booking_hospitalId bk) (Num (booking_bedTypeId bk)) of
           None \<Rightarrow> (bk, s2)
         | Some b \<Rightarrow>
             if jsLess (Fin 0) (bed_availableBeds b)
             then (bk, snd (updateBed s2 (bed_id b)
                              (onlyAvailable (jsSub (bed_availableBeds b) (Fin 1)))))
             else (bk, s2))"

definition updateBookingStatus :: "storage \<Rightarrow> int \<Rightarrow> string \<Rightarrow> booking option \<times> storage" where
  "updateBookingStatus s i status =
     (case getBooking s i of
        None \<Rightarrow> (None, s)
      | Some bk \<Rightarrow>
          (let s1 =
                 (if booking_status bk = ''pending'' \<and> status = ''canceled''
                  then (case getBedByHospitalAndType s (booking_hospitalId bk)
                               (Num (booking_bedTypeId bk)) of
                          None \<Rightarrow> s
                        | Some b \<Rightarrow>
                            snd (updateBed s (bed_id b)
                                   (onlyAvailable (jsAdd (bed_availableBeds b) (Fin 1)))))
                  else s);
               updatedBooking = bk\<lparr>booking_status := status\<rparr>
           in (Some updatedBooking, s1\<lparr>bookings := Map_set i updatedBooking (bookings s1)\<rparr>)))"

subsection \<open>The constructor\<close>

definition emptyStorage :: storage where
  "emptyStorage =
     \<lparr>hospitals = [], bedTypes = [], beds = [], bookings = [],
      hospitalCurrentId = 1, bedTypeCurrentId = 1, bedCurrentId = 1, bookingCurrentId = 1\<rparr>"

definition initDefaultBedTypes :: "storage \<Rightarrow> storage" where
  "initDefaultBedTypes s =
     foldl (\<lambda>s name. snd (createBedType s
                \<lparr>ibt_name = name, ibt_description = None, ibt_icon = None\<rparr>))
       s [''ICU'', ''General'', ''Emergency'', ''Pediatric'', ''Maternity'']"

definition MemStorage :: storage where
  "MemStorage = initDefaultBedTypes emptyStorage"

section \<open>Request handlers (server/routes.ts)\<close>

text \<open>
  A handler takes the store, the authenticated principal and the parsed request body, and
  gives the response (status and JSON payload) with the store it leaves. A body that the
  schema rejects never reaches the store and is not modelled; an id in the path that does not
  parse as a number is answered like an id that is not stored.
\<close>

datatype payload = ErrorJson string | BookingJson "booking option" | BedJson "bed option"

type_synonym response = "int \<times> payload"

text \<open>\<open>POST /api/bookings\<close>\<close>

definition postBookings :: "storage \<Rightarrow> int \<Rightarrow> insertBooking \<Rightarrow> nat \<Rightarrow> response \<times> storage" where
  "postBookings s userId body now =
     (let data = body\<lparr>ibk_userId := userId\<rparr> in
      case getHospital s (ibk_hospitalId data) of
        None \<Rightarrow> ((404, ErrorJson ''Hospital not found''), s)
      | Some h \<Rightarrow>
          if \<not> hospital_approved h then ((404, ErrorJson ''Hospital not found''), s)
          else
            (case getBedByHospitalAndType s (ibk_hospitalId data) (Num (ibk_bedTypeId data)) of
               None \<Rightarrow> ((404, ErrorJson ''Bed type not available at this hospital''), s)
             | Some b \<Rightarrow>
                 if jsLessEq (bed_availableBeds b) (Fin 0)
                 then ((400, ErrorJson ''No beds available of this type''), s)
                 else (let (newBooking, s') = createBooking s data now
                       in ((201, BookingJson (Some newBooking)), s'))))"

text \<open>\<open>PATCH /api/user/bookings/:id/cancel\<close>\<close>

definition patchUserBookingCancel :: "storage \<Rightarrow> int \<Rightarrow> int \<Rightarrow> response \<times> storage" where
  "patchUserBookingCancel s userId bookingId =
     (case getBooking s bookingId of
        None \<Rightarrow> ((404, ErrorJson ''Booking not found''), s)
      | Some bk \<Rightarrow>
          if booking_userId bk \<noteq> userId then ((403, ErrorJson ''Forbidden''), s)
          else if booking_status bk \<noteq> ''pending''
          then ((400, ErrorJson ''Can only cancel pending bookings''), s)
          else (let (updatedBooking, s') = updateBookingStatus s bookingId ''canceled''
                in ((200, BookingJson updatedBooking), s')))"

text \<open>\<open>PATCH /api/hospital/bookings/:id\<close>\<close>

definition patchHospitalBooking :: "storage \<Rightarrow> int \<Rightarrow> int \<Rightarrow> string \<Rightarrow> response \<times> storage" where
  "patchHospitalBooking s hospitalId bookingId status =
     (if status \<notin> set [''approved'', ''rejected'', ''canceled'']
      then ((400, ErrorJson ''Invalid status''), s)
      else
        (case getBooking s bookingId of
           None \<Rightarrow> ((404, ErrorJson ''Booking not found''), s)
         | Some bk \<Rightarrow>
             if booking_hospitalId bk \<noteq> hospitalId then ((403, ErrorJson ''Forbidden''), s)
             else (let (updatedBooking, s') = updateBookingStatus s bookingId status
                   in ((200, BookingJson updatedBooking), s'))))"

text \<open>\<open>POST /api/hospital/beds\<close>: the handler passes the whole parsed body to \<open>updateBed\<close>.\<close>

definition asPartial :: "insertBed \<Rightarrow> partialBed" where
  "asPartial d =
     \<lparr>pb_hospitalId = Some (ib_hospitalId d), pb_bedTypeId = Some (ib_bedTypeId d),
      pb_totalBeds = Some (ib_totalBeds d), pb_availableBeds = Some (ib_availableBeds d),
      pb_pricePerNight = ib_pricePerNight d\<rparr>"

definition postHospitalBeds :: "storage \<Rightarrow> int \<Rightarrow> insertBed \<Rightarrow> response \<times> storage" where
  "postHospitalBeds s hospitalId body =
     (let data = body\<lparr>ib_hospitalId := hospitalId\<rparr> in
      case getBedByHospitalAndType s hospitalId (ib_bedTypeId data) of
        Some existingBed \<Rightarrow>
          (let (updatedBed, s') = updateBed s (bed_id existingBed) (asPartial data)
           in ((200, BedJson updatedBed), s'))
      | None \<Rightarrow>
          (let (newBed, s') = createBed s data in ((201, BedJson (Some newBed)), s')))"

section \<open>The hospital data service (server/services/hospitalApi.ts)\<close>

text \<open>
  What the remote provider answers is outside the program, so it is an argument: the status
  of the health probe (\<open>None\<close> when the request throws) and, for each location parameter, the
  list it returns (\<open>None\<close> when the request throws). Coordinates are carried as the text that
  \<open>toString\<close> gives for them.
\<close>

record apiBed =
  apiBed_type :: string
  apiBed_total :: jsnum
  apiBed_available :: jsnum

record apiHospital =
  api_id :: string
  api_name :: string
  api_street :: string
  api_city :: string
  api_state :: string
  api_zipCode :: string
  api_phone :: string
  api_email :: string
  api_website :: string
  api_beds :: "apiBed list"
  api_lat :: string
  api_lng :: string

record apiConfig =
  apiKey :: string
  apiUrl :: string

record remote =
  remote_health :: "int option"
  remote_hospitals :: "string option \<Rightarrow> apiHospital list option"

definition transformHospitalData :: "apiHospital \<Rightarrow> insertHospital" where
  "transformHospitalData a =
     \<lparr>ih_username = ''hospital_'' @ api_id a,
      ih_password = ''temporary_password'',
      ih_name = api_name a,
      ih_email = api_email a,
      ih_address = api_street a,
      ih_city = api_city a,
      ih_state = api_state a,
      ih_zipCode = api_zipCode a,
      ih_phone = api_phone a,
      ih_website = Some (api_website a),
      ih_latitude = Some (api_lat a),
      ih_longitude = Some (api_lng a)\<rparr>"

definition isApiAvailable :: "apiConfig \<Rightarrow> remote \<Rightarrow> bool" where
  "isApiAvailable cfg r =
     (if apiKey cfg = [] then False
      else (case remote_health r of None \<Rightarrow> False | Some status \<Rightarrow> status = 200))"

text \<open>
  \<open>bedTypeMap\<close> is a plain object (\<open>{}\<close>) indexed by lower-cased names. Reading a key that is
  not an own property falls through to \<open>Object.prototype\<close>, which answers \<open>constructor\<close> and
  \<open>__proto__\<close> (the only inherited names without a capital letter); assigning a number to
  \<open>__proto__\<close> is ignored. \<open>None\<close> is \<open>undefined\<close>.
\<close>

type_synonym plainObject = "string \<Rightarrow> int option"

definition obj_get :: "plainObject \<Rightarrow> string \<Rightarrow> jsval option" where
  "obj_get m k =
     (case m k of
        Some v \<Rightarrow> Some (Num v)
      | None \<Rightarrow>
          if k = ''constructor'' then Some ObjectConstructor
          else if k = ''__proto__'' then Some ObjectPrototype
          else None)"

definition obj_set :: "plainObject \<Rightarrow> string \<Rightarrow> int \<Rightarrow> plainObject" where
  "obj_set m k v = (if k = ''__proto__'' then m else m(k \<mapsto> v))"

definition bedTypeMapOf :: "bedType list \<Rightarrow> plainObject" where
  "bedTypeMapOf ts =
     foldl (\<lambda>m t. obj_set m (toLowerCase (bedType_name t)) (bedType_id t)) (\<lambda>k. None) ts"

text \<open>One round of the loop over \<open>apiBeds\<close>; \<open>!bedTypeId\<close> holds for \<open>undefined\<close> and for 0.\<close>

definition resolveBedType :: "plainObject \<Rightarrow> storage \<Rightarrow> string \<Rightarrow> jsval \<times> plainObject \<times> storage" where
  "resolveBedType m s ty =
     (let fresh =
            (let (newBedType, s') =
                   createBedType s \<lparr>ibt_name = ty, ibt_description = None, ibt_icon = None\<rparr>
             in (Num (bedType_id newBedType),
                 obj_set m (toLowerCase ty) (bedType_id newBedType), s'))
      in case obj_get m (toLowerCase ty) of
           None \<Rightarrow> fresh
         | Some v \<Rightarrow> if v = Num 0 then fresh else (v, m, s))"

definition storeApiBed :: "storage \<Rightarrow> int \<Rightarrow> jsval \<Rightarrow> apiBed \<Rightarrow> storage" where
  "storeApiBed s hospitalId bedTypeId ab =
     (case getBedByHospitalAndType s hospitalId bedTypeId of
        Some existingBed \<Rightarrow>
          snd (updateBed s (bed_id existingBed)
                 \<lparr>pb_hospitalId = None, pb_bedTypeId = None,
                  pb_totalBeds = Some (apiBed_total ab),
                  pb_availableBeds = Some (apiBed_available ab),
                  pb_pricePerNight = None\<rparr>)
      | None \<Rightarrow>
          snd (createBed s
                 \<lparr>ib_hospitalId = hospitalId, ib_bedTypeId = bedTypeId,
                  ib_totalBeds = apiBed_total ab,
                  ib_availableBeds = apiBed_available ab,
                  ib_pricePerNight = None\<rparr>))"

fun processBedsLoop :: "int \<Rightarrow> plainObject \<Rightarrow> storage \<Rightarrow> apiBed list \<Rightarrow> storage" where
  "processBedsLoop hospitalId m s [] = s"
| "processBedsLoop hospitalId m s (ab # rest) =
     (case resolveBedType m s (apiBed_type ab) of
        (bedTypeId, m1, s1) \<Rightarrow>
          processBedsLoop hospitalId m1 (storeApiBed s1 hospitalId bedTypeId ab) rest)"

definition processHospitalBeds :: "storage \<Rightarrow> int \<Rightarrow> apiBed list \<Rightarrow> storage" where
  "processHospitalBeds s hospitalId apiBeds =
     processBedsLoop hospitalId (bedTypeMapOf (getAllBedTypes s)) s apiBeds"

text \<open>The loop of \<open>getHospitalsByLocation\<close> over the remote list.\<close>

fun syncHospitals :: "storage \<Rightarrow> apiHospital list \<Rightarrow> hospital list \<times> storage" where
  "syncHospitals s [] = ([], s)"
| "syncHospitals s (a # rest) =
     (case getHospitalByUsername s (''hospital_'' @ api_id a) of
        Some h \<Rightarrow> (case syncHospitals s rest of (hs, s') \<Rightarrow> (h # hs, s'))
      | None \<Rightarrow>
          (case createHospital s (transformHospitalData a) of
             (h0, s1) \<Rightarrow>
               (case updateHospitalApproval s1 (hospital_id h0) True of
                  (r, s2) \<Rightarrow>
                    (let h = (case r of None \<Rightarrow> h0 | Some h' \<Rightarrow> h');
                         s3 = processHospitalBeds s2 (hospital_id h) (api_beds a)
                     in case syncHospitals s3 rest of (hs, s') \<Rightarrow> (h # hs, s')))))"

definition getHospitalsByLocation ::
  "apiConfig \<Rightarrow> remote \<Rightarrow> storage \<Rightarrow> string option \<Rightarrow> hospital list \<times> storage" where
  "getHospitalsByLocation cfg r s location =
     (if \<not> isApiAvailable cfg r then (getApprovedHospitals s, s)
      else
        (let params = (case location of None \<Rightarrow> None
                       | Some l \<Rightarrow> if l = [] then None else Some l)
         in case remote_hospitals r params of
              None \<Rightarrow> (getApprovedHospitals s, s)
            | Some data \<Rightarrow> syncHospitals s data))"

section \<open>Operation sequences and invariants\<close>

text \<open>
  The operations a run is made of. \<open>CreateBooking\<close> is the storage method called directly;
  \<open>PostBooking\<close> is the request handler, which calls it behind its checks. \<open>CancelBooking\<close>
  is \<open>updateBookingStatus(id, 'canceled')\<close>, \<open>PatchCancel\<close> the user's cancel request and
  \<open>PatchHospitalBooking\<close> the hospital's approve, reject or cancel request.
  \<open>PostHospitalBeds\<close> is the hospital's bed request, which overwrites the record of a pair
  that has one.
\<close>

datatype op =
    CreateHospital insertHospital
  | UpdateHospitalApproval int bool
  | CreateBed insertBed
  | CreateBooking insertBooking nat
  | PostBooking int insertBooking nat
  | CancelBooking int
  | PatchCancel int int
  | PatchHospitalBooking int int string
  | PostHospitalBeds int insertBed

fun step :: "storage \<Rightarrow> op \<Rightarrow> storage" where
  "step s (CreateHospital ih) = snd (createHospital s ih)"
| "step s (UpdateHospitalApproval i a) = snd (updateHospitalApproval s i a)"
| "step s (CreateBed ib) = snd (createBed s ib)"
| "step s (CreateBooking ibk now) = snd (createBooking s ibk now)"
| "step s (PostBooking userId body now) = snd (postBookings s userId body now)"
| "step s (CancelBooking i) = snd (updateBookingStatus s i ''canceled'')"
| "step s (PatchCancel userId i) = snd (patchUserBookingCancel s userId i)"
| "step s (PatchHospitalBooking hospitalId i status) = snd (patchHospitalBooking s hospitalId i status)"
| "step s (PostHospitalBeds hospitalId body) = snd (postHospitalBeds s hospitalId body)"

definition run :: "storage \<Rightarrow> op list \<Rightarrow> storage" where
  "run s ops = foldl step s ops"

text \<open>
  A guarded operation: a bed is created with whole counts and
  \<open>0 \<le> availableBeds \<le> totalBeds\<close>, a booking is created through the handler, never by the
  bare storage call, and no bed record is overwritten.
\<close>

fun guarded :: "op \<Rightarrow> bool" where
  "guarded (CreateBed ib) =
     (wholeCount (ib_availableBeds ib) \<and> wholeCount (ib_totalBeds ib)
      \<and> jsLessEq (ib_availableBeds ib) (ib_totalBeds ib))"
| "guarded (CreateBooking ibk now) = False"
| "guarded (PostHospitalBeds hospitalId body) = False"
| "guarded _ = True"

definition bedInRange :: "bed \<Rightarrow> bool" where
  "bedInRange b =
     (jsLessEq (Fin 0) (bed_availableBeds b) \<and> jsLessEq (bed_availableBeds b) (bed_totalBeds b))"

definition bedWhole :: "bed \<Rightarrow> bool" where
  "bedWhole b =
     (wholeCount (bed_availableBeds b) \<and> wholeCount (bed_totalBeds b)
      \<and> countOf (bed_availableBeds b) \<le> countOf (bed_totalBeds b))"

text \<open>Every bed is stored under its own id, and no key occurs twice.\<close>

definition keyedById :: "bed jsmap \<Rightarrow> bool" where
  "keyedById m = (distinct (map fst m) \<and> (\<forall>(k, b) \<in> set m. bed_id b = k))"

definition pendingFor :: "int \<Rightarrow> int \<Rightarrow> booking \<Rightarrow> bool" where
  "pendingFor h t bk =
     (booking_status bk = ''pending'' \<and> booking_hospitalId bk = h \<and> booking_bedTypeId bk = t)"

definition pendingCount :: "storage \<Rightarrow> int \<Rightarrow> int \<Rightarrow> nat" where
  "pendingCount s h t = length (filter (pendingFor h t) (Map_values (bookings s)))"

text \<open>
  The invariant behind the bounds: ids are below their counters, every bed has whole counts
  in range, and for each pair the first bed's free count plus the pending bookings of the pair
  stays within its total (a pair without a bed has no pending booking).
\<close>

definition inventoryInv :: "storage \<Rightarrow> bool" where
  "inventoryInv s =
     (keyedById (beds s)
      \<and> (\<forall>k \<in> fst ` set (beds s). k < bedCurrentId s)
      \<and> (\<forall>k \<in> fst ` set (bookings s). k < bookingCurrentId s)
      \<and> (\<forall>b \<in> set (Map_values (beds s)). bedWhole b)
      \<and> (\<forall>h t. case getBedByHospitalAndType s h (Num t) of
                  None \<Rightarrow> pendingCount s h t = 0
                | Some b \<Rightarrow>
                    countOf (bed_availableBeds b) + int (pendingCount s h t)
                      \<le> countOf (bed_totalBeds b)))"

text \<open>The local hospitals that stand for a remote id, and a series of directory syncs.\<close>

definition mappedFrom :: "storage \<Rightarrow> string \<Rightarrow> hospital list" where
  "mappedFrom s remoteId =
     filter (\<lambda>h. toLowerCase (hospital_username h) = toLowerCase (''hospital_'' @ remoteId))
       (getAllHospitals s)"

definition repeatSync :: "storage \<Rightarrow> (apiConfig \<times> remote \<times> string option) list \<Rightarrow> storage" where
  "repeatSync s calls =
     foldl (\<lambda>s (cfg, r, location). snd (getHospitalsByLocation cfg r s location)) s calls"

section \<open>Scenarios\<close>

text \<open>Concrete stores and requests on which the theorems below are instantiated.\<close>

definition demoHospital :: insertHospital where
  "demoHospital =
     \<lparr>ih_username = ''stmary'', ih_password = ''secret1'', ih_name = ''St Mary'',
      ih_email = ''desk@stmary.org'', ih_address = ''1 Main St'', ih_city = ''Boston'',
      ih_state = ''MA'', ih_zipCode = ''02110'', ih_phone = ''555-0100'',
      ih_website = None, ih_latitude = None, ih_longitude = None\<rparr>"

definition demoBed :: insertBed where
  "demoBed =
     \<lparr>ib_hospitalId = 1, ib_bedTypeId = Num 1, ib_totalBeds = Fin 5, ib_availableBeds = Fin 5,
      ib_pricePerNight = None\<rparr>"

definition lastBed :: insertBed where
  "lastBed =
     \<lparr>ib_hospitalId = 1, ib_bedTypeId = Num 1, ib_totalBeds = Fin 1, ib_availableBeds = Fin 1,
      ib_pricePerNight = None\<rparr>"

text \<open>A bed of \<open>2^53 + 2\<close> places, and a bed with half a place free.\<close>

definition hugeBed :: insertBed where
  "hugeBed =
     \<lparr>ib_hospitalId = 1, ib_bedTypeId = Num 1, ib_totalBeds = Fin 9007199254740994,
      ib_availableBeds = Fin 9007199254740994, ib_pricePerNight = None\<rparr>"

definition halfBed :: insertBed where
  "halfBed =
     \<lparr>ib_hospitalId = 1, ib_bedTypeId = Num 1, ib_totalBeds = Fin 1,
      ib_availableBeds = Fin (1 / 2), ib_pricePerNight = None\<rparr>"

definition demoBooking :: insertBooking where
  "demoBooking =
     \<lparr>ibk_userId = 7, ibk_hospitalId = 1, ibk_bedTypeId = 1, ibk_patientName = ''Ada'',
      ibk_patientPhone = None, ibk_notes = None, ibk_status = None\<rparr>"

text \<open>An approved hospital with five free ICU beds.\<close>

definition demoStore :: storage where
  "demoStore =
     run MemStorage [CreateHospital demoHospital, UpdateHospitalApproval 1 True, CreateBed demoBed]"

text \<open>The same hospital with a single ICU bed, taken by a pending booking.\<close>

definition exhaustedStore :: storage where
  "exhaustedStore =
     run MemStorage [CreateHospital demoHospital, UpdateHospitalApproval 1 True, CreateBed lastBed,
       PostBooking 7 demoBooking 0]"

text \<open>The same hospital with \<open>2^53 + 2\<close> free ICU beds.\<close>

definition hugeStore :: storage where
  "hugeStore =
     run MemStorage [CreateHospital demoHospital, UpdateHospitalApproval 1 True, CreateBed hugeBed]"

text \<open>A pending booking for a pair that has no bed record.\<close>

definition bedlessStore :: storage where
  "bedlessStore = run MemStorage [CreateBooking demoBooking 0]"

definition noKeyConfig :: apiConfig where
  "noKeyConfig = \<lparr>apiKey = [], apiUrl = ''https://api.healthcare.gov/api/v1''\<rparr>"

definition keyConfig :: apiConfig where
  "keyConfig = \<lparr>apiKey = ''k-123'', apiUrl = ''https://api.healthcare.gov/api/v1''\<rparr>"

definition remoteHospital :: "apiBed list \<Rightarrow> apiHospital" where
  "remoteHospital bs =
     \<lparr>api_id = ''42'', api_name = ''Mercy'', api_street = ''9 Elm St'', api_city = ''Salem'',
      api_state = ''MA'', api_zipCode = ''01970'', api_phone = ''555-0142'',
      api_email = ''info@mercy.org'', api_website = [], api_beds = bs,
      api_lat = ''42.5'', api_lng = ''-70.9''\<rparr>"

definition liveRemote :: "apiBed list \<Rightarrow> remote" where
  "liveRemote bs = \<lparr>remote_health = Some 200, remote_hospitals = (\<lambda>params. Some [remoteHospital bs])\<rparr>"

definition downRemote :: remote where
  "downRemote = \<lparr>remote_health = Some 503, remote_hospitals = (\<lambda>params. None)\<rparr>"

text \<open>The rows these stores hold.\<close>

definition demoBedRow :: bed where
  "demoBedRow =
     \<lparr>bed_id = 1, bed_hospitalId = 1, bed_bedTypeId = Num 1, bed_totalBeds = Fin 5,
      bed_availableBeds = Fin 5, bed_pricePerNight = None\<rparr>"

definition lastBedTaken :: bed where
  "lastBedTaken =
     \<lparr>bed_id = 1, bed_hospitalId = 1, bed_bedTypeId = Num 1, bed_totalBeds = Fin 1,
      bed_availableBeds = Fin 0, bed_pricePerNight = None\<rparr>"

definition demoHospitalRow :: hospital where
  "demoHospitalRow =
     \<lparr>hospital_id = 1, hospital_username = ''stmary'', hospital_password = ''secret1'',
      hospital_name = ''St Mary'', hospital_email = ''desk@stmary.org'',
      hospital_address = ''1 Main St'', hospital_city = ''Boston'', hospital_state = ''MA'',
      hospital_zipCode = ''02110'', hospital_phone = ''555-0100'', hospital_website = None,
      hospital_latitude = None, hospital_longitude = None, hospital_approved = True\<rparr>"

definition pendingRow :: booking where
  "pendingRow =
     \<lparr>booking_id = 1, booking_userId = 7, booking_hospitalId = 1, booking_bedTypeId = 1,
      booking_patientName = ''Ada'', booking_patientPhone = None, booking_notes = None,
      booking_status = ''pending'', booking_createdAt = 0\<rparr>"

section \<open>Facts about the numbers\<close>

lemma ulpDown_form: "\<exists>k. ulpDown n (1 / 2 ^ j) x = 1 / 2 ^ k"
proof (induction n arbitrary: j)
  case 0
  show ?case by auto
next
  case (Suc n)
  have "(1 / 2 ^ j) / 2 = (1::rat) / 2 ^ Suc j"
    by simp
  then show ?case
    using Suc [of "Suc j"] by (auto simp del: power_Suc)
qed

lemma overflowBound_eq: "overflowBound = 2 ^ 1024"
  by (simp add: overflowBound_def)

lemma roundHalfEven_of_int: "roundHalfEven (of_int m) = m"
  by (simp add: roundHalfEven_def)

lemma roundDouble_small:
  assumes "\<bar>n\<bar> < 2 ^ 53"
  shows "roundDouble (of_int n) = Fin (of_int n)"
proof -
  have lt: "\<bar>of_int n :: rat\<bar> < 2 ^ 53"
  proof -
    have "(of_int \<bar>n\<bar> :: rat) < of_int (2 ^ 53)"
      using assms by (simp only: of_int_less_iff)
    then show ?thesis by simp
  qed
  obtain k where k: "ulpDown 1074 (1 / 2 ^ 0) \<bar>of_int n\<bar> = 1 / 2 ^ k"
    using ulpDown_form by blast
  have u: "ulp \<bar>of_int n\<bar> = 1 / 2 ^ k"
    using lt k by (simp add: ulp_def)
  have "(of_int n :: rat) / (1 / 2 ^ k) = of_int (n * 2 ^ k)"
    by simp
  then have r: "roundHalfEven (of_int n / (1 / 2 ^ k)) = n * 2 ^ k"
    by (simp only: roundHalfEven_of_int)
  have v: "(of_int (n * 2 ^ k) :: rat) * (1 / 2 ^ k) = of_int n"
    by simp
  have b1: "(of_int n :: rat) < 2 ^ 1024"
  proof -
    have "(of_int n :: rat) < 2 ^ 53" using lt by linarith
    also have "(2::rat) ^ 53 \<le> 2 ^ 1024" by (rule power_increasing) simp_all
    finally show ?thesis .
  qed
  have b2: "- (2 ^ 1024) < (of_int n :: rat)"
  proof -
    have "- (2 ^ 53) < (of_int n :: rat)" using lt by linarith
    moreover have "(2::rat) ^ 53 \<le> 2 ^ 1024" by (rule power_increasing) simp_all
    ultimately show ?thesis by linarith
  qed
  show ?thesis
  proof (cases "n = 0")
    case True
    then show ?thesis by (simp add: roundDouble_def)
  next
    case False
    then have "(of_int n :: rat) \<noteq> 0" by simp
    then show ?thesis
      unfolding roundDouble_def Let_def overflowBound_eq u r v using b1 b2 by simp
  qed
qed

lemma ulp_at_limit:
  assumes "2 ^ 53 \<le> x" and "x < 2 ^ 54"
  shows "ulp x = 2"
proof -
  have "ulpUp (Suc (Suc m)) 1 x = 2" for m
    using assms by simp
  from this [of 969] show ?thesis
    using assms by (simp add: ulp_def)
qed

lemma roundHalfEven_numeral:
  "roundHalfEven (numeral k) = numeral k" "roundHalfEven (- numeral k) = - numeral k"
  using roundHalfEven_of_int [of "numeral k"] roundHalfEven_of_int [of "- numeral k"]
  by simp_all

lemma roundDouble_limit:
  "roundDouble (2 ^ 53) = Fin (2 ^ 53)" "roundDouble (- (2 ^ 53)) = Fin (- (2 ^ 53))"
proof -
  have u: "ulp (2 ^ 53) = 2"
    by (rule ulp_at_limit) simp_all
  have le: "(2::rat) ^ 53 < 2 ^ 1024"
    by (rule power_strict_increasing) simp_all
  have a: "roundHalfEven (2 ^ 53 / 2) = 2 ^ 52" "roundHalfEven (- (2 ^ 53) / 2) = - (2 ^ 52)"
    by (simp_all add: roundHalfEven_numeral)
  have b: "(of_int (2 ^ 52) :: rat) * 2 = 2 ^ 53" "(of_int (- (2 ^ 52)) :: rat) * 2 = - (2 ^ 53)"
    by simp_all
  have c: "\<bar>(2::rat) ^ 53\<bar> = 2 ^ 53" "\<bar>- ((2::rat) ^ 53)\<bar> = 2 ^ 53"
    by simp_all
  show "roundDouble (2 ^ 53) = Fin (2 ^ 53)"
    unfolding roundDouble_def Let_def overflowBound_eq c u a b using le by simp
  show "roundDouble (- (2 ^ 53)) = Fin (- (2 ^ 53))"
    unfolding roundDouble_def Let_def overflowBound_eq c u a b using le by simp
qed

lemma roundDouble_whole:
  assumes "\<bar>n\<bar> \<le> 2 ^ 53"
  shows "roundDouble (of_int n) = Fin (of_int n)"
proof (cases "\<bar>n\<bar> < 2 ^ 53")
  case True
  then show ?thesis by (rule roundDouble_small)
next
  case False
  then have "n = 2 ^ 53 \<or> n = - (2 ^ 53)"
    using assms by linarith
  then show ?thesis
    using roundDouble_limit by auto
qed

lemma wholeCount_Fin: "wholeCount x \<longleftrightarrow> (\<exists>n. x = Fin (of_int n) \<and> 0 \<le> n \<and> n \<le> 2 ^ 53)"
proof
  assume w: "wholeCount x"
  then obtain r where x: "x = Fin r" and r: "r = of_int \<lfloor>r\<rfloor>" "0 \<le> r" "r \<le> 2 ^ 53"
    by (auto simp add: wholeCount_def split: jsnum.splits)
  have "0 \<le> \<lfloor>r\<rfloor>" using r(2) by simp
  moreover have "\<lfloor>r\<rfloor> \<le> 2 ^ 53"
  proof -
    have "r \<le> of_int (2 ^ 53)" using r(3) by simp
    then show ?thesis using r(1) by (metis of_int_le_iff)
  qed
  ultimately show "\<exists>n. x = Fin (of_int n) \<and> 0 \<le> n \<and> n \<le> 2 ^ 53"
    using x r(1) by blast
next
  assume "\<exists>n. x = Fin (of_int n) \<and> 0 \<le> n \<and> n \<le> 2 ^ 53"
  then obtain n where x: "x = Fin (of_int n)" and n: "0 \<le> n" "n \<le> 2 ^ 53"
    by blast
  have "(of_int n :: rat) \<le> of_int (2 ^ 53)"
    using n(2) by (simp only: of_int_le_iff)
  then show "wholeCount x"
    using n(1) by (simp add: wholeCount_def x)
qed

lemma countOf_Fin [simp]: "countOf (Fin r) = \<lfloor>r\<rfloor>"
  by (simp add: countOf_def)

lemma whole_sub_one:
  assumes "wholeCount x" and "0 < countOf x"
  shows "jsSub x (Fin 1) = Fin (of_int (countOf x - 1))"
proof -
  obtain n where x: "x = Fin (of_int n)" and n: "0 \<le> n" "n \<le> 2 ^ 53"
    using assms(1) wholeCount_Fin by blast
  have "\<bar>n - 1\<bar> \<le> 2 ^ 53"
    using n assms(2) by (simp add: x)
  from roundDouble_whole [OF this] show ?thesis
    by (simp add: jsSub_def x)
qed

lemma whole_add_one:
  assumes "wholeCount x" and "countOf x < 2 ^ 53"
  shows "jsAdd x (Fin 1) = Fin (of_int (countOf x + 1))"
proof -
  obtain n where x: "x = Fin (of_int n)" and n: "0 \<le> n" "n \<le> 2 ^ 53"
    using assms(1) wholeCount_Fin by blast
  have "\<bar>n + 1\<bar> \<le> 2 ^ 53"
    using n assms(2) by (simp add: x)
  from roundDouble_whole [OF this] show ?thesis
    by (simp add: x)
qed

lemma whole_positive: "wholeCount x \<Longrightarrow> jsLess (Fin 0) x \<longleftrightarrow> 0 < countOf x"
  by (auto simp add: wholeCount_Fin)

lemma whole_not_exhausted: "wholeCount x \<Longrightarrow> jsLessEq x (Fin 0) \<longleftrightarrow> countOf x \<le> 0"
  by (auto simp add: wholeCount_Fin)

lemma whole_le: "wholeCount x \<Longrightarrow> wholeCount y \<Longrightarrow> jsLessEq x y \<longleftrightarrow> countOf x \<le> countOf y"
  by (auto simp add: wholeCount_Fin)

lemma whole_of_int: "0 \<le> n \<Longrightarrow> n \<le> 2 ^ 53 \<Longrightarrow> wholeCount (Fin (of_int n))"
  using wholeCount_Fin by blast

lemma whole_bounds: "wholeCount x \<Longrightarrow> 0 \<le> countOf x \<and> countOf x \<le> 2 ^ 53"
  by (auto simp add: wholeCount_Fin)

lemma whole_eq: "wholeCount x \<Longrightarrow> x = Fin (of_int (countOf x))"
  by (auto simp add: wholeCount_Fin)

lemma positive_not_exhausted: "jsLess (Fin 0) x \<Longrightarrow> \<not> jsLessEq x (Fin 0)"
  by (cases x) simp_all

section \<open>Facts about the maps\<close>

lemma Map_get_set: "Map_get (Map_set k v m) k' = (if k' = k then Some v else Map_get m k')"
  by (simp add: Map_get_def Map_set_def update_conv')

lemma Map_set_back:
  "Map_get m k = Some v \<Longrightarrow> Map_set k v (Map_set k v' m) = m"
  by (simp add: Map_get_def Map_set_def update_triv)

lemma Map_set_fresh: "k \<notin> fst ` set m \<Longrightarrow> Map_set k v m = m @ [(k, v)]"
  by (induction m) (auto simp add: Map_set_def)

lemma Map_set_keys_present:
  "Map_get m k = Some v \<Longrightarrow> map fst (Map_set k v' m) = map fst m"
  by (induction m) (auto simp add: Map_set_def Map_get_def)

lemma Map_set_values_subset:
  "set (Map_values (Map_set k v m)) \<subseteq> insert v (set (Map_values m))"
  by (induction m) (auto simp add: Map_set_def Map_values_def)

lemma Map_set_entries_subset:
  "set (Map_set k v m) \<subseteq> insert (k, v) (set m)"
  by (induction m) (auto simp add: Map_set_def)

lemma Map_get_in_values: "Map_get m k = Some v \<Longrightarrow> v \<in> set (Map_values m)"
  by (auto simp add: Map_get_def Map_values_def dest: map_of_SomeD intro: rev_image_eqI)

lemma find_snoc:
  "List.find P (xs @ [y]) =
     (case List.find P xs of None \<Rightarrow> if P y then Some y else None | Some x \<Rightarrow> Some x)"
  by (induction xs) simp_all


lemma find_keyed_get:
  assumes "keyedById m" and "List.find P (Map_values m) = Some b"
  shows "Map_get m (bed_id b) = Some b"
proof -
  from assms(2) have "b \<in> set (Map_values m)"
    by (auto simp add: find_Some_iff)
  then obtain k where "(k, b) \<in> set m"
    by (auto simp add: Map_values_def)
  with assms(1) have "(bed_id b, b) \<in> set m" and "distinct (map fst m)"
    by (auto simp add: keyedById_def)
  then show ?thesis
    by (simp add: Map_get_def)
qed

lemma find_Map_set_hit:
  assumes "\<forall>(k, b) \<in> set m. bed_id b = k"
    and "List.find P (Map_values m) = Some b" and "P b'"
  shows "List.find P (Map_values (Map_set (bed_id b) b' m)) = Some b'"
  using assms
  by (induction m) (auto simp add: Map_values_def Map_set_def)

lemma find_Map_set_miss:
  "Map_get m k = Some v \<Longrightarrow> \<not> P v \<Longrightarrow> \<not> P v' \<Longrightarrow>
   List.find P (Map_values (Map_set k v' m)) = List.find P (Map_values m)"
  by (induction m) (auto simp add: Map_set_def Map_get_def Map_values_def)

lemma count_Map_set:
  "Map_get m k = Some v \<Longrightarrow>
   length (filter Q (Map_values (Map_set k v' m))) + (if Q v then 1 else 0)
     = length (filter Q (Map_values m)) + (if Q v' then 1 else 0)"
  by (induction m) (auto simp add: Map_set_def Map_get_def Map_values_def)


lemma keyedById_update:
  "keyedById m \<Longrightarrow> Map_get m k = Some v \<Longrightarrow> bed_id v' = k \<Longrightarrow> keyedById (Map_set k v' m)"
  using Map_set_entries_subset [of k v' m]
  by (auto simp add: keyedById_def Map_set_keys_present)

lemma keyedById_append:
  "keyedById m \<Longrightarrow> k \<notin> fst ` set m \<Longrightarrow> bed_id v = k \<Longrightarrow> keyedById (m @ [(k, v)])"
  by (auto simp add: keyedById_def)

section \<open>Facts about the storage methods\<close>

lemma getBedByHospitalAndType_cong:
  "beds s' = beds s \<Longrightarrow> getBedByHospitalAndType s' = getBedByHospitalAndType s"
  by (simp add: getBedByHospitalAndType_def fun_eq_iff)

lemma spread_onlyAvailable: "spreadBed b (onlyAvailable n) = b\<lparr>bed_availableBeds := n\<rparr>"
  by (simp add: spreadBed_def onlyAvailable_def)

lemma find_pair:
  "getBedByHospitalAndType s h t = Some b \<Longrightarrow> bed_hospitalId b = h \<and> bed_bedTypeId b = t"
  by (auto simp add: getBedByHospitalAndType_def find_Some_iff)

lemma find_member:
  "getBedByHospitalAndType s h t = Some b \<Longrightarrow> b \<in> set (Map_values (beds s))"
  by (auto simp add: getBedByHospitalAndType_def find_Some_iff)


lemma postBookings_success:
  assumes k: "keyedById (beds s)"
    and hosp: "getHospital s (ibk_hospitalId body) = Some h" "hospital_approved h"
    and bed: "getBedByHospitalAndType s (ibk_hospitalId body) (Num (ibk_bedTypeId body)) = Some b"
    and pos: "jsLess (Fin 0) (bed_availableBeds b)"
  shows "postBookings s userId body now =
     ((201, BookingJson (Some (fst (createBooking s (body\<lparr>ibk_userId := userId\<rparr>) now)))),
      s\<lparr>bookingCurrentId := bookingCurrentId s + 1,
        bookings := Map_set (bookingCurrentId s)
                      (fst (createBooking s (body\<lparr>ibk_userId := userId\<rparr>) now)) (bookings s),
        beds := Map_set (bed_id b)
                  (b\<lparr>bed_availableBeds := jsSub (bed_availableBeds b) (Fin 1)\<rparr>) (beds s)\<rparr>)"
proof -
  have g: "getBed s (bed_id b) = Some b"
    using find_keyed_get [OF k] bed by (simp add: getBed_def getBedByHospitalAndType_def)
  show ?thesis
    using hosp bed pos g positive_not_exhausted [OF pos]
    by (simp add: postBookings_def createBooking_def Let_def updateBed_def
        getBedByHospitalAndType_def getBed_def spread_onlyAvailable)
qed

lemma MemStorage_fields:
  "beds MemStorage = []" "bookings MemStorage = []"
  "bedCurrentId MemStorage = 1" "bookingCurrentId MemStorage = 1" "hospitals MemStorage = []"
  by (simp_all add: MemStorage_def initDefaultBedTypes_def emptyStorage_def createBedType_def Let_def)

section \<open>Bed inventory bounds\<close>

lemma inv_frame:
  assumes "inventoryInv s" and "beds s' = beds s" and "bookings s' = bookings s"
    and "bedCurrentId s' = bedCurrentId s" and "bookingCurrentId s' = bookingCurrentId s"
  shows "inventoryInv s'"
proof -
  have "getBedByHospitalAndType s' = getBedByHospitalAndType s"
    using assms(2) by (rule getBedByHospitalAndType_cong)
  moreover have "pendingCount s' = pendingCount s"
    using assms(3) by (simp add: pendingCount_def fun_eq_iff)
  ultimately show ?thesis
    using assms by (simp add: inventoryInv_def cong: option.case_cong)
qed

lemma inv_adjust:
  assumes inv: "inventoryInv s"
    and bed: "getBedByHospitalAndType s h0 (Num t0) = Some b"
    and s': "s' = s\<lparr>beds := Map_set (bed_id b) (b\<lparr>bed_availableBeds := Fin (of_int a')\<rparr>) (beds s),
                     bookings := bks, bookingCurrentId := c\<rparr>"
    and range: "0 \<le> a'"
    and same: "a' + int (length (filter (pendingFor h0 t0) (Map_values bks)))
                 \<le> countOf (bed_totalBeds b)"
    and other: "\<forall>h t. (h, t) \<noteq> (h0, t0) \<longrightarrow>
                  length (filter (pendingFor h t) (Map_values bks)) \<le> pendingCount s h t"
    and keys: "\<forall>k \<in> fst ` set bks. k < c"
  shows "inventoryInv s'"
proof -
  define b' where "b' = b\<lparr>bed_availableBeds := Fin (of_int a')\<rparr>"
  have k: "keyedById (beds s)"
    using inv by (simp add: inventoryInv_def)
  have ids: "\<forall>(k, b) \<in> set (beds s). bed_id b = k"
    using k by (simp add: keyedById_def)
  have g: "Map_get (beds s) (bed_id b) = Some b"
    using find_keyed_get [OF k] bed by (simp add: getBedByHospitalAndType_def)
  have pairb: "bed_hospitalId b = h0" "bed_bedTypeId b = Num t0"
    using find_pair [OF bed] by simp_all
  have c1: "keyedById (beds s')"
    using keyedById_update [OF k g, of b'] by (simp add: s' b'_def)
  have c2: "\<forall>k \<in> fst ` set (beds s'). k < bedCurrentId s'"
  proof -
    have "map fst (beds s') = map fst (beds s)"
      using Map_set_keys_present [OF g, of b'] by (simp add: s' b'_def)
    then have "set (map fst (beds s')) = set (map fst (beds s))"
      by simp
    then have "fst ` set (beds s') = fst ` set (beds s)"
      by simp
    moreover have "bedCurrentId s' = bedCurrentId s"
      by (simp add: s')
    ultimately show ?thesis
      using inv by (simp add: inventoryInv_def)
  qed
  have c3: "\<forall>k \<in> fst ` set (bookings s'). k < bookingCurrentId s'"
    using keys by (simp add: s')
  have wb: "bedWhole b"
    using inv Map_get_in_values [OF g] by (simp add: inventoryInv_def)
  have rb': "bedWhole b'"
  proof -
    have t: "wholeCount (bed_totalBeds b)" "countOf (bed_totalBeds b) \<le> 2 ^ 53"
      using wb whole_bounds [of "bed_totalBeds b"] by (simp_all add: bedWhole_def)
    have "a' \<le> countOf (bed_totalBeds b)"
      using same by linarith
    then show ?thesis
      using range t whole_of_int [of a'] by (simp add: bedWhole_def b'_def)
  qed
  have c4: "\<forall>x \<in> set (Map_values (beds s')). bedWhole x"
  proof
    fix x assume "x \<in> set (Map_values (beds s'))"
    then have "x = b' \<or> x \<in> set (Map_values (beds s))"
      using Map_set_values_subset [of "bed_id b" b' "beds s"] by (auto simp add: s' b'_def)
    then show "bedWhole x"
      using rb' inv by (auto simp add: inventoryInv_def)
  qed
  have c5: "case getBedByHospitalAndType s' h (Num t) of
              None \<Rightarrow> pendingCount s' h t = 0
            | Some x \<Rightarrow>
                countOf (bed_availableBeds x) + int (pendingCount s' h t)
                  \<le> countOf (bed_totalBeds x)"
    for h t
  proof (cases "(h, t) = (h0, t0)")
    case True
    have "getBedByHospitalAndType s' h0 (Num t0) = Some b'"
      using find_Map_set_hit [OF ids, where b = b and b' = b'
          and P = "\<lambda>x. bed_hospitalId x = h0 \<and> bed_bedTypeId x = Num t0"] bed pairb
      by (simp add: getBedByHospitalAndType_def s' b'_def)
    then show ?thesis
      using True same by (simp add: pendingCount_def s' b'_def)
  next
    case False
    then have np: "\<not> (bed_hospitalId b = h \<and> bed_bedTypeId b = Num t)"
      using pairb by auto
    then have np': "\<not> (bed_hospitalId b' = h \<and> bed_bedTypeId b' = Num t)"
      by (simp add: b'_def)
    have same_find: "getBedByHospitalAndType s' h (Num t) = getBedByHospitalAndType s h (Num t)"
      using find_Map_set_miss [OF g, where v' = b'
          and P = "\<lambda>x. bed_hospitalId x = h \<and> bed_bedTypeId x = Num t"] np np'
      by (simp add: getBedByHospitalAndType_def s' b'_def)
    have le: "pendingCount s' h t \<le> pendingCount s h t"
      using other False by (simp add: pendingCount_def s')
    have old: "case getBedByHospitalAndType s h (Num t) of
              None \<Rightarrow> pendingCount s h t = 0
            | Some x \<Rightarrow>
                countOf (bed_availableBeds x) + int (pendingCount s h t)
                  \<le> countOf (bed_totalBeds x)"
      using inv by (simp add: inventoryInv_def)
    show ?thesis
      using old le by (simp add: same_find split: option.splits)
  qed
  show ?thesis
    using c1 c2 c3 c4 c5 by (simp add: inventoryInv_def)
qed

lemma inv_bookings_only:
  assumes inv: "inventoryInv s"
    and s': "s' = s\<lparr>bookings := bks, bookingCurrentId := c\<rparr>"
    and le: "\<forall>h t. length (filter (pendingFor h t) (Map_values bks)) \<le> pendingCount s h t"
    and keys: "\<forall>k \<in> fst ` set bks. k < c"
  shows "inventoryInv s'"
proof -
  have f: "getBedByHospitalAndType s' = getBedByHospitalAndType s"
    by (rule getBedByHospitalAndType_cong) (simp add: s')
  have c5: "case getBedByHospitalAndType s' h (Num t) of
              None \<Rightarrow> pendingCount s' h t = 0
            | Some x \<Rightarrow>
                countOf (bed_availableBeds x) + int (pendingCount s' h t)
                  \<le> countOf (bed_totalBeds x)"
    for h t
  proof -
    have le': "pendingCount s' h t \<le> pendingCount s h t"
      using le by (simp add: pendingCount_def s')
    have old: "case getBedByHospitalAndType s h (Num t) of
              None \<Rightarrow> pendingCount s h t = 0
            | Some x \<Rightarrow>
                countOf (bed_availableBeds x) + int (pendingCount s h t)
                  \<le> countOf (bed_totalBeds x)"
      using inv by (simp add: inventoryInv_def)
    show ?thesis
      using old le' by (simp add: f split: option.splits)
  qed
  have c1: "keyedById (beds s')"
    and c2: "\<forall>k \<in> fst ` set (beds s'). k < bedCurrentId s'"
    and c4: "\<forall>x \<in> set (Map_values (beds s')). bedWhole x"
    using inv by (simp_all add: inventoryInv_def s')
  have c3: "\<forall>k \<in> fst ` set (bookings s'). k < bookingCurrentId s'"
    using keys by (simp add: s')
  show ?thesis
    using c1 c2 c3 c4 c5 by (simp add: inventoryInv_def)
qed

lemma inv_createBed:
  assumes inv: "inventoryInv s"
    and rng: "wholeCount (ib_availableBeds ib) \<and> wholeCount (ib_totalBeds ib)
               \<and> jsLessEq (ib_availableBeds ib) (ib_totalBeds ib)"
  shows "inventoryInv (snd (createBed s ib))"
proof -
  define i where "i = bedCurrentId s"
  define b where "b = fst (createBed s ib)"
  define s' where "s' = snd (createBed s ib)"
  have fresh: "i \<notin> fst ` set (beds s)"
    using inv by (auto simp add: inventoryInv_def i_def)
  have st: "s' = s\<lparr>bedCurrentId := i + 1, beds := beds s @ [(i, b)]\<rparr>"
    using Map_set_fresh [OF fresh, of b]
    by (simp add: s'_def createBed_def Let_def i_def b_def)
  have bf: "bed_id b = i" "bed_availableBeds b = ib_availableBeds ib"
    "bed_totalBeds b = ib_totalBeds ib"
    by (simp_all add: b_def createBed_def Let_def i_def)
  have k: "keyedById (beds s)"
    using inv by (simp add: inventoryInv_def)
  have c1: "keyedById (beds s')"
    using keyedById_append [OF k fresh bf(1)] by (simp add: st)
  have c2: "\<forall>k \<in> fst ` set (beds s'). k < bedCurrentId s'"
    using inv by (auto simp add: inventoryInv_def st i_def)
  have c3: "\<forall>k \<in> fst ` set (bookings s'). k < bookingCurrentId s'"
    using inv by (simp add: inventoryInv_def st)
  have wb: "bedWhole b"
    using rng bf whole_le [of "ib_availableBeds ib" "ib_totalBeds ib"] by (simp add: bedWhole_def)
  have c4: "\<forall>x \<in> set (Map_values (beds s')). bedWhole x"
    using inv wb by (auto simp add: inventoryInv_def st Map_values_def)
  have c5: "case getBedByHospitalAndType s' h (Num t) of
              None \<Rightarrow> pendingCount s' h t = 0
            | Some x \<Rightarrow>
                countOf (bed_availableBeds x) + int (pendingCount s' h t)
                  \<le> countOf (bed_totalBeds x)"
    for h t
  proof -
    have pc: "pendingCount s' h t = pendingCount s h t"
      by (simp add: pendingCount_def st)
    have old: "case getBedByHospitalAndType s h (Num t) of
              None \<Rightarrow> pendingCount s h t = 0
            | Some x \<Rightarrow>
                countOf (bed_availableBeds x) + int (pendingCount s h t)
                  \<le> countOf (bed_totalBeds x)"
      using inv by (simp add: inventoryInv_def)
    have f: "getBedByHospitalAndType s' h (Num t) =
        (case getBedByHospitalAndType s h (Num t) of
           None \<Rightarrow> if bed_hospitalId b = h \<and> bed_bedTypeId b = Num t then Some b else None
         | Some x \<Rightarrow> Some x)"
      by (simp add: getBedByHospitalAndType_def st Map_values_def find_snoc)
    show ?thesis
      using old wb by (auto simp add: f pc bedWhole_def split: option.splits)
  qed
  have "inventoryInv s'"
    using c1 c2 c3 c4 c5 by (simp add: inventoryInv_def)
  then show ?thesis
    by (simp add: s'_def)
qed

lemma inv_createBooking:
  assumes inv: "inventoryInv s"
    and bed: "getBedByHospitalAndType s (ibk_hospitalId ibk) (Num (ibk_bedTypeId ibk)) = Some b"
    and pos: "jsLess (Fin 0) (bed_availableBeds b)"
  shows "inventoryInv (snd (createBooking s ibk now))"
proof -
  define i where "i = bookingCurrentId s"
  define bk where "bk = fst (createBooking s ibk now)"
  define bks where "bks = bookings s @ [(i, bk)]"
  have k: "keyedById (beds s)"
    using inv by (simp add: inventoryInv_def)
  have g: "getBed s (bed_id b) = Some b"
    using find_keyed_get [OF k] bed by (simp add: getBed_def getBedByHospitalAndType_def)
  have fresh: "i \<notin> fst ` set (bookings s)"
    using inv by (auto simp add: inventoryInv_def i_def)
  have bks: "Map_set i bk (bookings s) = bks"
    using Map_set_fresh [OF fresh] by (simp add: bks_def)
  have wb: "bedWhole b"
    using inv find_member [OF bed] by (simp add: inventoryInv_def)
  have pos': "0 < countOf (bed_availableBeds b)"
    using wb pos whole_positive [of "bed_availableBeds b"] by (simp add: bedWhole_def)
  have sub: "jsSub (bed_availableBeds b) (Fin 1) = Fin (of_int (countOf (bed_availableBeds b) - 1))"
    using wb pos' by (simp add: bedWhole_def whole_sub_one)
  have st: "snd (createBooking s ibk now) =
      s\<lparr>beds := Map_set (bed_id b)
                 (b\<lparr>bed_availableBeds := Fin (of_int (countOf (bed_availableBeds b) - 1))\<rparr>) (beds s),
        bookings := bks, bookingCurrentId := i + 1\<rparr>"
    using bed pos g bks sub
    by (simp add: createBooking_def Let_def updateBed_def getBedByHospitalAndType_def
        getBed_def spread_onlyAvailable i_def bk_def)
  have pair: "booking_hospitalId bk = ibk_hospitalId ibk" "booking_bedTypeId bk = ibk_bedTypeId ibk"
    by (simp_all add: bk_def createBooking_def Let_def split: option.splits)
  have cnt: "length (filter (pendingFor h t) (Map_values bks)) =
      pendingCount s h t + (if pendingFor h t bk then 1 else 0)" for h t
    by (simp add: bks_def Map_values_def pendingCount_def)
  have old: "countOf (bed_availableBeds b)
               + int (pendingCount s (ibk_hospitalId ibk) (ibk_bedTypeId ibk))
               \<le> countOf (bed_totalBeds b)"
    using inv bed by (auto simp add: inventoryInv_def split: option.splits)
  have same: "countOf (bed_availableBeds b) - 1
       + int (length (filter (pendingFor (ibk_hospitalId ibk) (ibk_bedTypeId ibk)) (Map_values bks)))
       \<le> countOf (bed_totalBeds b)"
    using old by (simp add: cnt)
  have other: "\<forall>h t. (h, t) \<noteq> (ibk_hospitalId ibk, ibk_bedTypeId ibk) \<longrightarrow>
                  length (filter (pendingFor h t) (Map_values bks)) \<le> pendingCount s h t"
    using pair by (auto simp add: cnt pendingFor_def)
  have keys: "\<forall>k \<in> fst ` set bks. k < i + 1"
    using inv by (auto simp add: inventoryInv_def bks_def i_def)
  show ?thesis
    using inv_adjust [OF inv bed st _ same other keys] pos' by simp
qed

lemma inv_updateBookingStatus:
  assumes inv: "inventoryInv s" and np: "st \<noteq> ''pending''"
  shows "inventoryInv (snd (updateBookingStatus s i st))"
proof (cases "getBooking s i")
  case None
  then show ?thesis
    using inv by (simp add: updateBookingStatus_def)
next
  case (Some bk)
  define bkc where "bkc = bk\<lparr>booking_status := st\<rparr>"
  define bks where "bks = Map_set i bkc (bookings s)"
  have gb: "Map_get (bookings s) i = Some bk"
    using Some by (simp add: getBooking_def)
  have cnt: "length (filter (pendingFor h t) (Map_values bks)) + (if pendingFor h t bk then 1 else 0)
      = pendingCount s h t" for h t
    using count_Map_set [OF gb, of "pendingFor h t" bkc] np
    by (simp add: bks_def pendingCount_def bkc_def pendingFor_def)
  have keys: "\<forall>k \<in> fst ` set bks. k < bookingCurrentId s"
  proof -
    have "map fst bks = map fst (bookings s)"
      using Map_set_keys_present [OF gb] by (simp add: bks_def)
    then have "set (map fst bks) = set (map fst (bookings s))"
      by simp
    then show ?thesis
      using inv by (simp add: inventoryInv_def)
  qed
  show ?thesis
  proof (cases "booking_status bk = ''pending'' \<and> st = ''canceled''")
    case False
    have st: "snd (updateBookingStatus s i st) =
                s\<lparr>bookings := bks, bookingCurrentId := bookingCurrentId s\<rparr>"
      using Some False by (auto simp add: updateBookingStatus_def Let_def bks_def bkc_def)
    have le: "\<forall>h t. length (filter (pendingFor h t) (Map_values bks)) \<le> pendingCount s h t"
      using cnt by (metis le_add1)
    show ?thesis
      using inv_bookings_only [OF inv st le keys] .
  next
    case True
    define h0 where "h0 = booking_hospitalId bk"
    define t0 where "t0 = booking_bedTypeId bk"
    have pf: "pendingFor h0 t0 bk"
      using True by (simp add: pendingFor_def h0_def t0_def)
    have one: "1 \<le> pendingCount s h0 t0"
      using cnt [of h0 t0] pf by simp
    have old: "case getBedByHospitalAndType s h0 (Num t0) of
              None \<Rightarrow> pendingCount s h0 t0 = 0
            | Some x \<Rightarrow>
                countOf (bed_availableBeds x) + int (pendingCount s h0 t0)
                  \<le> countOf (bed_totalBeds x)"
      using inv by (simp add: inventoryInv_def)
    then obtain b where bed: "getBedByHospitalAndType s h0 (Num t0) = Some b"
      and sum: "countOf (bed_availableBeds b) + int (pendingCount s h0 t0)
                  \<le> countOf (bed_totalBeds b)"
      using one by (cases "getBedByHospitalAndType s h0 (Num t0)") auto
    have k: "keyedById (beds s)"
      using inv by (simp add: inventoryInv_def)
    have g: "getBed s (bed_id b) = Some b"
      using find_keyed_get [OF k] bed by (simp add: getBed_def getBedByHospitalAndType_def)
    have wb: "bedWhole b"
      using inv find_member [OF bed] by (simp add: inventoryInv_def)
    have room: "countOf (bed_availableBeds b) < 2 ^ 53" "0 \<le> countOf (bed_availableBeds b)"
      using wb sum one whole_bounds [of "bed_totalBeds b"] whole_bounds [of "bed_availableBeds b"]
      by (simp_all add: bedWhole_def)
    have add: "jsAdd (bed_availableBeds b) (Fin 1)
                 = Fin (of_int (countOf (bed_availableBeds b) + 1))"
      using wb room by (simp add: bedWhole_def whole_add_one)
    have st: "snd (updateBookingStatus s i st) =
      s\<lparr>beds := Map_set (bed_id b)
                 (b\<lparr>bed_availableBeds := Fin (of_int (countOf (bed_availableBeds b) + 1))\<rparr>) (beds s),
        bookings := bks, bookingCurrentId := bookingCurrentId s\<rparr>"
      using Some True bed g add
      by (simp add: updateBookingStatus_def Let_def updateBed_def spread_onlyAvailable
          bks_def bkc_def h0_def t0_def)
    have same: "countOf (bed_availableBeds b) + 1
        + int (length (filter (pendingFor h0 t0) (Map_values bks))) \<le> countOf (bed_totalBeds b)"
      using sum cnt [of h0 t0] pf by simp
    have other: "\<forall>h t. (h, t) \<noteq> (h0, t0) \<longrightarrow>
                  length (filter (pendingFor h t) (Map_values bks)) \<le> pendingCount s h t"
      using cnt by (metis le_add1)
    show ?thesis
      using inv_adjust [OF inv bed st _ same other keys] room by simp
  qed
qed

lemma inv_postBookings:
  assumes inv: "inventoryInv s"
  shows "inventoryInv (snd (postBookings s userId body now))"
proof -
  have "inventoryInv (snd (createBooking s (body\<lparr>ibk_userId := userId\<rparr>) now))"
    if "getBedByHospitalAndType s (ibk_hospitalId body) (Num (ibk_bedTypeId body)) = Some b"
      and "\<not> jsLessEq (bed_availableBeds b) (Fin 0)" for b
  proof -
    have "bedWhole b"
      using inv find_member [OF that(1)] by (simp add: inventoryInv_def)
    then have "jsLess (Fin 0) (bed_availableBeds b)"
      using that(2) whole_positive [of "bed_availableBeds b"]
        whole_not_exhausted [of "bed_availableBeds b"]
      by (simp add: bedWhole_def)
    then show ?thesis
      using inv_createBooking [OF inv, of "body\<lparr>ibk_userId := userId\<rparr>" b now] that(1) by simp
  qed
  then show ?thesis
    using inv by (simp add: postBookings_def Let_def split_def split: option.splits)
qed

lemma inv_patchCancel:
  assumes inv: "inventoryInv s"
  shows "inventoryInv (snd (patchUserBookingCancel s userId i))"
  using inv inv_updateBookingStatus [OF inv, of "''canceled''" i]
  by (simp add: patchUserBookingCancel_def split_def Let_def split: option.splits)

lemma inv_patchHospitalBooking:
  assumes inv: "inventoryInv s"
  shows "inventoryInv (snd (patchHospitalBooking s hospitalId i st))"
proof (cases "st = ''pending''")
  case True
  then show ?thesis
    using inv by (simp add: patchHospitalBooking_def)
next
  case False
  then show ?thesis
    using inv inv_updateBookingStatus [OF inv False, of i]
    by (auto simp add: patchHospitalBooking_def split_def Let_def split: option.splits)
qed

lemma inv_step: "inventoryInv s \<Longrightarrow> guarded op \<Longrightarrow> inventoryInv (step s op)"
proof (cases op)
  case (CreateHospital ih)
  assume "inventoryInv s"
  then show ?thesis
    by (rule inv_frame) (simp_all add: CreateHospital createHospital_def Let_def)
next
  case (UpdateHospitalApproval i a)
  assume "inventoryInv s"
  then show ?thesis
    by (rule inv_frame)
      (simp_all add: UpdateHospitalApproval updateHospitalApproval_def Let_def split: option.splits)
next
  case (CreateBed ib)
  assume "inventoryInv s" "guarded op"
  then show ?thesis
    using inv_createBed [of s ib] by (simp add: CreateBed)
next
  case (CreateBooking ibk now)
  assume "guarded op"
  then show ?thesis
    by (simp add: CreateBooking)
next
  case (PostBooking u body now)
  assume "inventoryInv s"
  then show ?thesis
    by (simp add: PostBooking inv_postBookings)
next
  case (CancelBooking i)
  assume "inventoryInv s"
  then show ?thesis
    by (simp add: CancelBooking inv_updateBookingStatus)
next
  case (PatchCancel u i)
  assume "inventoryInv s"
  then show ?thesis
    by (simp add: PatchCancel inv_patchCancel)
next
  case (PatchHospitalBooking h i st)
  assume "inventoryInv s"
  then show ?thesis
    by (simp add: PatchHospitalBooking inv_patchHospitalBooking)
next
  case (PostHospitalBeds h body)
  assume "guarded op"
  then show ?thesis
    by (simp add: PostHospitalBeds)
qed

lemma inv_run: "inventoryInv s \<Longrightarrow> \<forall>op \<in> set ops. guarded op \<Longrightarrow> inventoryInv (run s ops)"
  unfolding run_def
  by (induction ops arbitrary: s) (simp_all add: inv_step)

lemma inv_MemStorage: "inventoryInv MemStorage"
  by (simp add: inventoryInv_def MemStorage_fields keyedById_def Map_values_def
      getBedByHospitalAndType_def pendingCount_def)

text \<open>
  Claim C1, with whole counts and booking creation behind the handler's checks. Start from
  the store the constructor builds and run any sequence of hospital registrations and
  approvals, \<open>createBed\<close> calls whose two counts are whole numbers with
  \<open>0 \<le> availableBeds \<le> totalBeds \<le> 2^53\<close>, booking requests through the \<open>POST /api/bookings\<close>
  handler, cancellations, and approvals or rejections by the hospital. Then every bed record
  has \<open>0 \<le> availableBeds \<le> totalBeds\<close>. The bound rests on the handler's check that the bed
  exists and has a free place: \<open>createBooking\<close> called directly is not a guarded operation,
  and neither is a request that overwrites a bed record.
\<close>

theorem inventory_bounds_guarded:
  assumes "\<forall>op \<in> set ops. guarded op"
  shows "\<forall>b \<in> set (Map_values (beds (run MemStorage ops))).
           jsLessEq (Fin 0) (bed_availableBeds b)
           \<and> jsLessEq (bed_availableBeds b) (bed_totalBeds b)"
proof
  fix b assume "b \<in> set (Map_values (beds (run MemStorage ops)))"
  then have w: "bedWhole b"
    using inv_run [OF inv_MemStorage assms] by (simp add: inventoryInv_def)
  then have "0 \<le> countOf (bed_availableBeds b)"
    using whole_bounds [of "bed_availableBeds b"] by (simp add: bedWhole_def)
  moreover have "wholeCount (Fin 0)"
    by (simp add: wholeCount_def)
  ultimately show "jsLessEq (Fin 0) (bed_availableBeds b)
      \<and> jsLessEq (bed_availableBeds b) (bed_totalBeds b)"
    using w whole_le [of "Fin 0" "bed_availableBeds b"]
      whole_le [of "bed_availableBeds b" "bed_totalBeds b"]
    by (simp add: bedWhole_def)
qed

text \<open>
  A guarded run: the single bed is booked, a second request is refused, the booking is
  cancelled, and a repeated cancellation changes nothing.
\<close>

theorem inventory_bounds_guarded_witness:
  "list_all guarded
     [CreateHospital demoHospital, UpdateHospitalApproval 1 True, CreateBed lastBed,
      PostBooking 7 demoBooking 0, PostBooking 8 demoBooking 1, CancelBooking 1, CancelBooking 1]
   \<and> list_all bedInRange
       (Map_values (beds (run MemStorage
          [CreateHospital demoHospital, UpdateHospitalApproval 1 True, CreateBed lastBed,
           PostBooking 7 demoBooking 0, PostBooking 8 demoBooking 1, CancelBooking 1,
           CancelBooking 1])))"
proof -
  have g: "\<forall>op \<in> set [CreateHospital demoHospital, UpdateHospitalApproval 1 True, CreateBed lastBed,
        PostBooking 7 demoBooking 0, PostBooking 8 demoBooking 1, CancelBooking 1, CancelBooking 1].
      guarded op"
    by (simp add: lastBed_def wholeCount_def)
  show ?thesis
    using g inventory_bounds_guarded [OF g]
    unfolding list_all_iff bedInRange_def by blast
qed

lemma guarded_run_example:
  "Map_values (beds (run MemStorage
        [CreateHospital demoHospital, UpdateHospitalApproval 1 True, CreateBed lastBed,
         PostBooking 7 demoBooking 0, PostBooking 8 demoBooking 1, CancelBooking 1,
         CancelBooking 1]))
      = [lastBedTaken\<lparr>bed_availableBeds := Fin 1\<rparr>]"
  by code_simp

text \<open>
  With the storage methods called directly the bound fails. One bed, created with
  \<open>availableBeds = totalBeds = 1\<close>; two bookings, the second stored although no place is
  left; both cancelled while pending: the record ends with \<open>availableBeds = 2\<close> and
  \<open>totalBeds = 1\<close>.
\<close>

theorem inventory_bounds_unguarded_counterexample:
  "jsLessEq (Fin 0) (ib_availableBeds lastBed)
   \<and> jsLessEq (ib_availableBeds lastBed) (ib_totalBeds lastBed)
   \<and> Map_values (beds (run MemStorage
        [CreateBed lastBed, CreateBooking demoBooking 0, CreateBooking demoBooking 1,
         CancelBooking 1, CancelBooking 2]))
      = [lastBedTaken\<lparr>bed_availableBeds := Fin 2\<rparr>]"
  by code_simp

text \<open>
  The hospital's bed request on a pair that has a record overwrites its counts, as a directory
  sync does. Sent between a booking and its cancellation it takes the count above the total,
  with every request going through its handler.
\<close>

lemma overwrite_run_example:
  "Map_values (beds (run MemStorage
        [CreateHospital demoHospital, UpdateHospitalApproval 1 True, PostHospitalBeds 1 demoBed,
         PostBooking 7 demoBooking 0, PostHospitalBeds 1 demoBed, PatchCancel 7 1]))
      = [demoBedRow\<lparr>bed_availableBeds := Fin 6\<rparr>]"
  by code_simp

text \<open>
  The counts have to be whole. A bed created with half a place free passes the handler's
  check, and the booking leaves it with minus a half.
\<close>

lemma fractional_count_example:
  "jsLessEq (Fin 0) (ib_availableBeds halfBed)
   \<and> jsLessEq (ib_availableBeds halfBed) (ib_totalBeds halfBed)
   \<and> map bed_availableBeds (Map_values (beds (run MemStorage
        [CreateHospital demoHospital, UpdateHospitalApproval 1 True, CreateBed halfBed,
         PostBooking 7 demoBooking 0])))
      = [Fin (- (1 / 2))]"
  by code_simp


section \<open>Creating beds\<close>

text \<open>
  Claim C5, with the check where the code has it. \<open>createBed\<close> does not look at the pair
  and never fails: on a store whose beds are keyed by ids below the counter it returns the
  record made of the next id, which no stored bed has, and of the given pair, counts and
  price; it appends that record and moves the counter on by one, whether or not the pair has
  a record already. The check is the caller's: \<open>POST /api/hospital/beds\<close> answers 201
  through \<open>createBed\<close> only when the pair has no record; otherwise it answers 200 with the
  first record of the pair, which keeps its id and its place in the map and takes the two
  counts of the request (and its price, when the request has one), and no record is added.
\<close>

theorem createBed_no_pair_check:
  assumes below: "\<forall>k \<in> fst ` set (beds s). k < bedCurrentId s"
    and keyed: "keyedById (beds s)"
  shows "fst (createBed s ib) =
           \<lparr>bed_id = bedCurrentId s, bed_hospitalId = ib_hospitalId ib,
            bed_bedTypeId = ib_bedTypeId ib, bed_totalBeds = ib_totalBeds ib,
            bed_availableBeds = ib_availableBeds ib,
            bed_pricePerNight = (case ib_pricePerNight ib of None \<Rightarrow> None | Some p \<Rightarrow> p)\<rparr>
         \<and> snd (createBed s ib) =
           s\<lparr>bedCurrentId := bedCurrentId s + 1,
             beds := beds s @ [(bedCurrentId s, fst (createBed s ib))]\<rparr>
         \<and> bedCurrentId s \<notin> fst ` set (beds s)
         \<and> (case getBedByHospitalAndType s hospitalId (ib_bedTypeId body) of
               None \<Rightarrow>
                 postHospitalBeds s hospitalId body =
                   ((201, BedJson (Some (fst (createBed s (body\<lparr>ib_hospitalId := hospitalId\<rparr>))))),
                    snd (createBed s (body\<lparr>ib_hospitalId := hospitalId\<rparr>)))
             | Some existingBed \<Rightarrow>
                 postHospitalBeds s hospitalId body =
                   ((200, BedJson (Some (existingBed
                        \<lparr>bed_totalBeds := ib_totalBeds body,
                         bed_availableBeds := ib_availableBeds body,
                         bed_pricePerNight :=
                           (case ib_pricePerNight body of
                              None \<Rightarrow> bed_pricePerNight existingBed | Some p \<Rightarrow> p)\<rparr>))),
                    s\<lparr>beds := Map_set (bed_id existingBed)
                        (existingBed
                           \<lparr>bed_totalBeds := ib_totalBeds body,
                            bed_availableBeds := ib_availableBeds body,
                            bed_pricePerNight :=
                              (case ib_pricePerNight body of
                                 None \<Rightarrow> bed_pricePerNight existingBed | Some p \<Rightarrow> p)\<rparr>)
                        (beds s)\<rparr>)
                 \<and> map fst (beds (snd (postHospitalBeds s hospitalId body))) = map fst (beds s))"
proof -
  have fresh: "bedCurrentId s \<notin> fst ` set (beds s)"
    using below by auto
  have a: "fst (createBed s ib) =
           \<lparr>bed_id = bedCurrentId s, bed_hospitalId = ib_hospitalId ib,
            bed_bedTypeId = ib_bedTypeId ib, bed_totalBeds = ib_totalBeds ib,
            bed_availableBeds = ib_availableBeds ib,
            bed_pricePerNight = (case ib_pricePerNight ib of None \<Rightarrow> None | Some p \<Rightarrow> p)\<rparr>"
    by (simp add: createBed_def Let_def)
  have b: "snd (createBed s ib) =
           s\<lparr>bedCurrentId := bedCurrentId s + 1,
             beds := beds s @ [(bedCurrentId s, fst (createBed s ib))]\<rparr>"
    using Map_set_fresh [OF fresh] by (simp add: createBed_def Let_def)
  have c: "postHospitalBeds s hospitalId body =
                   ((201, BedJson (Some (fst (createBed s (body\<lparr>ib_hospitalId := hospitalId\<rparr>))))),
                    snd (createBed s (body\<lparr>ib_hospitalId := hospitalId\<rparr>)))"
    if "getBedByHospitalAndType s hospitalId (ib_bedTypeId body) = None"
    using that by (simp add: postHospitalBeds_def Let_def split_def)
  have d: "postHospitalBeds s hospitalId body =
             ((200, BedJson (Some (e
                  \<lparr>bed_totalBeds := ib_totalBeds body,
                   bed_availableBeds := ib_availableBeds body,
                   bed_pricePerNight :=
                     (case ib_pricePerNight body of None \<Rightarrow> bed_pricePerNight e | Some p \<Rightarrow> p)\<rparr>))),
              s\<lparr>beds := Map_set (bed_id e)
                  (e\<lparr>bed_totalBeds := ib_totalBeds body,
                    bed_availableBeds := ib_availableBeds body,
                    bed_pricePerNight :=
                      (case ib_pricePerNight body of None \<Rightarrow> bed_pricePerNight e | Some p \<Rightarrow> p)\<rparr>)
                  (beds s)\<rparr>)
           \<and> map fst (beds (snd (postHospitalBeds s hospitalId body))) = map fst (beds s)"
    if e: "getBedByHospitalAndType s hospitalId (ib_bedTypeId body) = Some e" for e
  proof -
    have g: "Map_get (beds s) (bed_id e) = Some e"
      using find_keyed_get [OF keyed] e by (simp add: getBedByHospitalAndType_def)
    have p: "bed_hospitalId e = hospitalId" "bed_bedTypeId e = ib_bedTypeId body"
      using find_pair [OF e] by simp_all
    have sp: "spreadBed e (asPartial (body\<lparr>ib_hospitalId := hospitalId\<rparr>)) =
        e\<lparr>bed_totalBeds := ib_totalBeds body,
          bed_availableBeds := ib_availableBeds body,
          bed_pricePerNight :=
            (case ib_pricePerNight body of None \<Rightarrow> bed_pricePerNight e | Some p \<Rightarrow> p)\<rparr>"
      using p by (simp add: spreadBed_def asPartial_def)
    show ?thesis
      using e g sp Map_set_keys_present [OF g]
      by (simp add: postHospitalBeds_def Let_def updateBed_def getBed_def)
  qed
  show ?thesis
  proof (cases "getBedByHospitalAndType s hospitalId (ib_bedTypeId body)")
    case None
    show ?thesis
      using a b fresh c [OF None] unfolding None option.case by blast
  next
    case (Some e)
    show ?thesis
      using a b fresh d [OF Some] unfolding Some option.case by blast
  qed
qed

theorem createBed_no_pair_check_witness:
  "fst (createBed demoStore demoBed) =
           \<lparr>bed_id = bedCurrentId demoStore, bed_hospitalId = ib_hospitalId demoBed,
            bed_bedTypeId = ib_bedTypeId demoBed, bed_totalBeds = ib_totalBeds demoBed,
            bed_availableBeds = ib_availableBeds demoBed,
            bed_pricePerNight = (case ib_pricePerNight demoBed of None \<Rightarrow> None | Some p \<Rightarrow> p)\<rparr>
         \<and> snd (createBed demoStore demoBed) =
           demoStore\<lparr>bedCurrentId := bedCurrentId demoStore + 1,
             beds := beds demoStore @ [(bedCurrentId demoStore, fst (createBed demoStore demoBed))]\<rparr>
         \<and> bedCurrentId demoStore \<notin> fst ` set (beds demoStore)
         \<and> (case getBedByHospitalAndType demoStore 1 (ib_bedTypeId lastBed) of
               None \<Rightarrow>
                 postHospitalBeds demoStore 1 lastBed =
                   ((201, BedJson (Some (fst (createBed demoStore (lastBed\<lparr>ib_hospitalId := 1\<rparr>))))),
                    snd (createBed demoStore (lastBed\<lparr>ib_hospitalId := 1\<rparr>)))
             | Some existingBed \<Rightarrow>
                 postHospitalBeds demoStore 1 lastBed =
                   ((200, BedJson (Some (existingBed
                        \<lparr>bed_totalBeds := ib_totalBeds lastBed,
                         bed_availableBeds := ib_availableBeds lastBed,
                         bed_pricePerNight :=
                           (case ib_pricePerNight lastBed of
                              None \<Rightarrow> bed_pricePerNight existingBed | Some p \<Rightarrow> p)\<rparr>))),
                    demoStore\<lparr>beds := Map_set (bed_id existingBed)
                        (existingBed
                           \<lparr>bed_totalBeds := ib_totalBeds lastBed,
                            bed_availableBeds := ib_availableBeds lastBed,
                            bed_pricePerNight :=
                              (case ib_pricePerNight lastBed of
                                 None \<Rightarrow> bed_pricePerNight existingBed | Some p \<Rightarrow> p)\<rparr>)
                        (beds demoStore)\<rparr>)
                 \<and> map fst (beds (snd (postHospitalBeds demoStore 1 lastBed))) = map fst (beds demoStore))"
proof -
  have h: "\<forall>k \<in> fst ` set (beds demoStore). k < bedCurrentId demoStore"
    by code_simp
  have k: "keyedById (beds demoStore)"
    by code_simp
  show ?thesis
    by (rule createBed_no_pair_check [OF h k])
qed

text \<open>
  \<open>createBed\<close> on a pair that already has a record returns a second record with a new id,
  and the hospital then holds two records for the pair. The hospital's request for the same
  pair overwrites the counts of the record that is there.
\<close>

lemma postHospitalBeds_example:
  "postHospitalBeds demoStore 1 lastBed =
     ((200, BedJson (Some (demoBedRow\<lparr>bed_totalBeds := Fin 1, bed_availableBeds := Fin 1\<rparr>))),
      demoStore\<lparr>beds :=
        [(1, demoBedRow\<lparr>bed_totalBeds := Fin 1, bed_availableBeds := Fin 1\<rparr>)]\<rparr>)"
  by code_simp

theorem createBed_duplicate_pair_counterexample:
  "getBedByHospitalAndType demoStore (ib_hospitalId demoBed) (ib_bedTypeId demoBed) = Some demoBedRow
   \<and> fst (createBed demoStore demoBed) = demoBedRow\<lparr>bed_id := 2\<rparr>
   \<and> getBedsByHospital (snd (createBed demoStore demoBed)) 1 = [demoBedRow, demoBedRow\<lparr>bed_id := 2\<rparr>]"
  by code_simp

section \<open>Booking requests and status changes\<close>

text \<open>
  Claim C2. A booking request for a pair whose bed record has \<open>availableBeds = 0\<close> is
  refused by the handler (404 when the hospital is missing or not approved, otherwise 400),
  and the store is left exactly as it was: no booking record, no change to any bed.
\<close>

theorem exhausted_bed_booking_rejected:
  assumes "getBedByHospitalAndType s (ibk_hospitalId body) (Num (ibk_bedTypeId body)) = Some b"
    and "bed_availableBeds b = Fin 0"
  shows "snd (postBookings s userId body now) = s \<and>
         (fst (postBookings s userId body now) = (404, ErrorJson ''Hospital not found'') \<or>
          fst (postBookings s userId body now) = (400, ErrorJson ''No beds available of this type''))"
  using assms by (simp add: postBookings_def Let_def split: option.splits)

theorem exhausted_bed_booking_rejected_witness:
  "snd (postBookings exhaustedStore 8 demoBooking 5) = exhaustedStore \<and>
   (fst (postBookings exhaustedStore 8 demoBooking 5) = (404, ErrorJson ''Hospital not found'') \<or>
    fst (postBookings exhaustedStore 8 demoBooking 5) = (400, ErrorJson ''No beds available of this type''))"
proof -
  have h1: "getBedByHospitalAndType exhaustedStore (ibk_hospitalId demoBooking)
              (Num (ibk_bedTypeId demoBooking)) = Some lastBedTaken"
    by code_simp
  have h2: "bed_availableBeds lastBedTaken = Fin 0"
    by (simp add: lastBedTaken_def)
  show ?thesis
    by (rule exhausted_bed_booking_rejected [OF h1 h2])
qed

text \<open>
  Claim C3, for whole counts. On a store whose beds are keyed by their ids, take an approved
  hospital and a bed whose free count is a whole number \<open>a\<close> with \<open>0 < a \<le> 2^53\<close>. The booking
  request succeeds, leaves a pending booking and lowers the count to \<open>a - 1\<close>; the user's cancel request succeeds and puts every bed record
  back exactly as it was before the booking; a second cancel request is refused with 400
  because the booking is no longer pending, and changes nothing. Calling
  \<open>updateBookingStatus\<close> a second time directly does not touch the beds either.
\<close>

theorem book_then_cancel_restores:
  assumes k: "keyedById (beds s)"
    and hosp: "getHospital s (ibk_hospitalId body) = Some h" "hospital_approved h"
    and bed: "getBedByHospitalAndType s (ibk_hospitalId body) (Num (ibk_bedTypeId body)) = Some b"
    and cnt: "bed_availableBeds b = Fin (of_int a)" and pos: "0 < a" and lim: "a \<le> 2 ^ 53"
    and st: "ibk_status body = None \<or> ibk_status body = Some [] \<or> ibk_status body = Some ''pending''"
  shows "let i = bookingCurrentId s;
             p1 = postBookings s userId body now;
             p2 = patchUserBookingCancel (snd p1) userId i;
             p3 = patchUserBookingCancel (snd p2) userId i
         in fst (fst p1) = 201
          \<and> (\<exists>bk. getBooking (snd p1) i = Some bk \<and> booking_status bk = ''pending'')
          \<and> getBedByHospitalAndType (snd p1) (ibk_hospitalId body) (Num (ibk_bedTypeId body))
              = Some (b\<lparr>bed_availableBeds := Fin (of_int (a - 1))\<rparr>)
          \<and> fst (fst p2) = 200
          \<and> (\<exists>bk. getBooking (snd p2) i = Some bk \<and> booking_status bk = ''canceled'')
          \<and> beds (snd p2) = beds s
          \<and> p3 = ((400, ErrorJson ''Can only cancel pending bookings''), snd p2)
          \<and> beds (snd (updateBookingStatus (snd p2) i ''canceled'')) = beds (snd p2)"
proof -
  define i where "i = bookingCurrentId s"
  define bk where "bk = fst (createBooking s (body\<lparr>ibk_userId := userId\<rparr>) now)"
  define b' where "b' = b\<lparr>bed_availableBeds := Fin (of_int (a - 1))\<rparr>"
  have w: "wholeCount (bed_availableBeds b)" "countOf (bed_availableBeds b) = a"
    using pos lim whole_of_int [of a] by (simp_all add: cnt)
  have free: "jsLess (Fin 0) (bed_availableBeds b)"
    using pos by (simp add: cnt)
  have sub: "jsSub (bed_availableBeds b) (Fin 1) = Fin (of_int (a - 1))"
    using whole_sub_one [OF w(1)] pos by (simp add: w(2))
  have w': "wholeCount (Fin (of_int (a - 1)))"
    using pos lim whole_of_int [of "a - 1"] by simp
  have add: "jsAdd (Fin (of_int (a - 1))) (Fin 1) = Fin (of_int a)"
    using whole_add_one [OF w'] lim by simp
  define s1 where "s1 = s\<lparr>bookingCurrentId := i + 1,
        bookings := Map_set i bk (bookings s),
        beds := Map_set (bed_id b) b' (beds s)\<rparr>"
  define bkc where "bkc = bk\<lparr>booking_status := ''canceled''\<rparr>"
  define s2 where "s2 = s1\<lparr>beds := beds s, bookings := Map_set i bkc (bookings s1)\<rparr>"
  have p1: "postBookings s userId body now = ((201, BookingJson (Some bk)), s1)"
    using postBookings_success [OF k hosp bed free, of userId now]
    by (simp add: i_def bk_def b'_def s1_def sub)
  have bk_fields: "booking_status bk = ''pending''" "booking_userId bk = userId"
    "booking_hospitalId bk = ibk_hospitalId body" "booking_bedTypeId bk = ibk_bedTypeId body"
    using st by (auto simp add: bk_def createBooking_def Let_def split: option.splits)
  have g: "Map_get (beds s) (bed_id b) = Some b"
    using find_keyed_get [OF k] bed by (simp add: getBedByHospitalAndType_def)
  have keys: "\<forall>(k, b) \<in> set (beds s). bed_id b = k"
    using k by (simp add: keyedById_def)
  have f1: "getBedByHospitalAndType s1 (ibk_hospitalId body) (Num (ibk_bedTypeId body)) = Some b'"
  proof -
    have "bed_hospitalId b = ibk_hospitalId body \<and> bed_bedTypeId b = Num (ibk_bedTypeId body)"
      using bed by (auto simp add: getBedByHospitalAndType_def find_Some_iff)
    then have "bed_hospitalId b' = ibk_hospitalId body \<and> bed_bedTypeId b' = Num (ibk_bedTypeId body)"
      by (simp add: b'_def)
    with find_Map_set_hit [OF keys, where b = b and b' = b'] bed
    show ?thesis
      by (simp add: getBedByHospitalAndType_def s1_def)
  qed
  have gb1: "getBooking s1 i = Some bk"
    by (simp add: getBooking_def s1_def Map_get_set)
  have gbed1: "getBed s1 (bed_id b) = Some b'"
    by (simp add: getBed_def s1_def Map_get_set)
  have same: "b'\<lparr>bed_availableBeds := Fin (of_int a)\<rparr> = b"
    using cnt [symmetric] by (simp add: b'_def)
  have restore: "Map_set (bed_id b)
      (b'\<lparr>bed_availableBeds := jsAdd (bed_availableBeds b') (Fin 1)\<rparr>) (beds s1) = beds s"
  proof -
    have "bed_availableBeds b' = Fin (of_int (a - 1))"
      by (simp add: b'_def)
    then have "b'\<lparr>bed_availableBeds := jsAdd (bed_availableBeds b') (Fin 1)\<rparr> = b"
      using same add by simp
    then show ?thesis
      using Map_set_back [OF g, of b'] by (simp add: s1_def)
  qed
  have u2: "updateBookingStatus s1 i ''canceled'' = (Some bkc, s2)"
  proof -
    have bid: "bed_id b' = bed_id b"
      by (simp add: b'_def)
    show ?thesis
      using gb1 bk_fields f1 gbed1 restore
      by (simp add: updateBookingStatus_def Let_def updateBed_def spread_onlyAvailable
          bkc_def s2_def bid)
  qed
  have p2: "patchUserBookingCancel s1 userId i = ((200, BookingJson (Some bkc)), s2)"
    using gb1 bk_fields u2 by (simp add: patchUserBookingCancel_def)
  have gb2: "getBooking s2 i = Some bkc"
    by (simp add: getBooking_def s2_def Map_get_set)
  have p3: "patchUserBookingCancel s2 userId i =
              ((400, ErrorJson ''Can only cancel pending bookings''), s2)"
    using gb2 bk_fields by (simp add: patchUserBookingCancel_def bkc_def)
  have u3: "beds (snd (updateBookingStatus s2 i ''canceled'')) = beds s2"
    using gb2 by (simp add: updateBookingStatus_def Let_def bkc_def)
  have f1': "getBedByHospitalAndType s1 (ibk_hospitalId body) (Num (ibk_bedTypeId body))
      = Some (b\<lparr>bed_availableBeds := Fin (of_int (a - 1))\<rparr>)"
    using f1 unfolding b'_def .
  show ?thesis
    using p1 p2 p3 u3 f1' gb1 gb2 bk_fields(1)
    by (simp add: Let_def i_def [symmetric] s2_def bkc_def)
qed

theorem book_then_cancel_restores_witness:
  "beds (snd (patchUserBookingCancel (snd (postBookings demoStore 7 demoBooking 0)) 7 1))
     = beds demoStore
   \<and> getBedByHospitalAndType (snd (postBookings demoStore 7 demoBooking 0)) 1 (Num 1)
     = Some (demoBedRow\<lparr>bed_availableBeds := Fin 4\<rparr>)
   \<and> patchUserBookingCancel
       (snd (patchUserBookingCancel (snd (postBookings demoStore 7 demoBooking 0)) 7 1)) 7 1
     = ((400, ErrorJson ''Can only cancel pending bookings''),
        snd (patchUserBookingCancel (snd (postBookings demoStore 7 demoBooking 0)) 7 1))"
proof -
  have k: "keyedById (beds demoStore)"
    by code_simp
  have h: "getHospital demoStore (ibk_hospitalId demoBooking) = Some demoHospitalRow"
    by code_simp
  have a: "hospital_approved demoHospitalRow"
    by (simp add: demoHospitalRow_def)
  have b: "getBedByHospitalAndType demoStore (ibk_hospitalId demoBooking)
             (Num (ibk_bedTypeId demoBooking)) = Some demoBedRow"
    by code_simp
  have c: "bed_availableBeds demoBedRow = Fin (of_int 5)"
    by (simp add: demoBedRow_def)
  have p: "(0::int) < 5" "(5::int) \<le> 2 ^ 53"
    by simp_all
  have st: "ibk_status demoBooking = None \<or> ibk_status demoBooking = Some []
      \<or> ibk_status demoBooking = Some ''pending''"
    by (simp add: demoBooking_def)
  have i: "bookingCurrentId demoStore = 1"
    by code_simp
  have f: "ibk_hospitalId demoBooking = 1" "ibk_bedTypeId demoBooking = 1"
    by (simp_all add: demoBooking_def)
  show ?thesis
    using book_then_cancel_restores [OF k h a b c p st, of 7 0]
    by (simp add: Let_def i f)
qed

text \<open>
  Without the bound on \<open>a\<close> the count does not come back. At \<open>a = 2^53 + 2\<close> the booking
  leaves \<open>2^53\<close>, because \<open>2^53 + 1\<close> is no double and rounds to the even neighbour, and
  the cancellation leaves \<open>2^53\<close> again.
\<close>

theorem book_then_cancel_large_counterexample:
  "map bed_availableBeds (Map_values (beds hugeStore)) = [Fin 9007199254740994]
   \<and> fst (fst (postBookings hugeStore 7 demoBooking 0)) = 201
   \<and> map bed_availableBeds (Map_values (beds (snd (postBookings hugeStore 7 demoBooking 0))))
       = [Fin 9007199254740992]
   \<and> fst (fst (patchUserBookingCancel (snd (postBookings hugeStore 7 demoBooking 0)) 7 1)) = 200
   \<and> map bed_availableBeds (Map_values (beds (snd
         (patchUserBookingCancel (snd (postBookings hugeStore 7 demoBooking 0)) 7 1))))
       = [Fin 9007199254740992]"
  by code_simp

text \<open>
  Claim C4. Moving a pending booking to \<open>approved\<close> or \<open>rejected\<close> rewrites that booking
  and nothing else in the store, so no field of any bed record changes. Whenever
  \<open>updateBookingStatus\<close> does change the beds, the booking was pending and the new status is
  \<open>canceled\<close>.
\<close>

theorem approve_reject_frame:
  "(getBooking s i = Some bk \<and> booking_status bk = ''pending'' \<and> (st = ''approved'' \<or> st = ''rejected'')
      \<longrightarrow> updateBookingStatus s i st =
            (Some (bk\<lparr>booking_status := st\<rparr>),
             s\<lparr>bookings := Map_set i (bk\<lparr>booking_status := st\<rparr>) (bookings s)\<rparr>))
   \<and> (beds (snd (updateBookingStatus s i st)) \<noteq> beds s
      \<longrightarrow> (\<exists>bk'. getBooking s i = Some bk' \<and> booking_status bk' = ''pending'' \<and> st = ''canceled''))"
  by (auto simp add: updateBookingStatus_def updateBed_def Let_def split: option.splits)

theorem approve_reject_frame_witness:
  "updateBookingStatus exhaustedStore 1 ''approved'' =
     (Some (pendingRow\<lparr>booking_status := ''approved''\<rparr>),
      exhaustedStore\<lparr>bookings :=
        Map_set 1 (pendingRow\<lparr>booking_status := ''approved''\<rparr>) (bookings exhaustedStore)\<rparr>)
   \<and> beds (snd (updateBookingStatus exhaustedStore 1 ''canceled'')) \<noteq> beds exhaustedStore
   \<and> (\<exists>bk'. getBooking exhaustedStore 1 = Some bk' \<and> booking_status bk' = ''pending'')"
proof -
  have g: "getBooking exhaustedStore 1 = Some pendingRow"
    by code_simp
  have p: "booking_status pendingRow = ''pending''"
    by (simp add: pendingRow_def)
  have c: "beds (snd (updateBookingStatus exhaustedStore 1 ''canceled'')) \<noteq> beds exhaustedStore"
    by code_simp
  show ?thesis
    using approve_reject_frame [of exhaustedStore 1 pendingRow "''approved''"]
      approve_reject_frame [of exhaustedStore 1 pendingRow "''canceled''"] g p c
    by simp
qed

text \<open>
  Claim C10. Cancelling a pending booking whose pair has no bed record succeeds: the booking
  comes back with status \<open>canceled\<close>, only the bookings map is rewritten, and no error is
  raised for the missing bed.
\<close>

theorem cancel_without_bed: 
  assumes "getBooking s i = Some bk" and "booking_status bk = ''pending''"
    and "getBedByHospitalAndType s (booking_hospitalId bk) (Num (booking_bedTypeId bk)) = None"
  shows "updateBookingStatus s i ''canceled'' =
           (Some (bk\<lparr>booking_status := ''canceled''\<rparr>),
            s\<lparr>bookings := Map_set i (bk\<lparr>booking_status := ''canceled''\<rparr>) (bookings s)\<rparr>)
         \<and> beds (snd (updateBookingStatus s i ''canceled'')) = beds s"
  using assms by (simp add: updateBookingStatus_def Let_def)

theorem cancel_without_bed_witness:
  "updateBookingStatus bedlessStore 1 ''canceled'' =
     (Some (pendingRow\<lparr>booking_status := ''canceled''\<rparr>),
      bedlessStore\<lparr>bookings :=
        Map_set 1 (pendingRow\<lparr>booking_status := ''canceled''\<rparr>) (bookings bedlessStore)\<rparr>)
   \<and> beds (snd (updateBookingStatus bedlessStore 1 ''canceled'')) = beds bedlessStore"
proof -
  have g: "getBooking bedlessStore 1 = Some pendingRow"
    by code_simp
  have p: "booking_status pendingRow = ''pending''"
    by (simp add: pendingRow_def)
  have n: "getBedByHospitalAndType bedlessStore (booking_hospitalId pendingRow)
             (Num (booking_bedTypeId pendingRow)) = None"
    by code_simp
  show ?thesis
    by (rule cancel_without_bed [OF g p n])
qed

section \<open>Directory sync\<close>

text \<open>
  Claim C6. When no API key is configured, or the health probe throws or answers anything
  but 200, the source counts as unavailable; and whenever it is unavailable the listing is
  exactly the locally stored hospitals with \<open>approved = true\<close>, and the store is returned
  unchanged. (The probe also rewrites the defaults of the HTTP client; those are no part of
  the store.)
\<close>

theorem unavailable_serves_local:
  "(apiKey cfg = [] \<or> remote_health r \<noteq> Some 200 \<longrightarrow> \<not> isApiAvailable cfg r) \<and>
   (\<not> isApiAvailable cfg r \<longrightarrow>
      getHospitalsByLocation cfg r s location =
        (filter hospital_approved (getAllHospitals s), s))"
  by (auto simp add: isApiAvailable_def getHospitalsByLocation_def getApprovedHospitals_def getAllHospitals_def split: option.splits)

theorem unavailable_serves_local_witness:
  "\<not> isApiAvailable noKeyConfig (liveRemote [])
   \<and> \<not> isApiAvailable keyConfig downRemote
   \<and> getHospitalsByLocation keyConfig downRemote demoStore (Some ''Boston'')
       = (filter hospital_approved (getAllHospitals demoStore), demoStore)"
proof -
  have a: "apiKey noKeyConfig = [] \<or> remote_health (liveRemote []) \<noteq> Some 200"
    by (simp add: noKeyConfig_def)
  have b: "apiKey keyConfig = [] \<or> remote_health downRemote \<noteq> Some 200"
    by (simp add: downRemote_def)
  show ?thesis
    using unavailable_serves_local [of noKeyConfig "liveRemote []" demoStore "Some ''Boston''"]
      unavailable_serves_local [of keyConfig downRemote demoStore "Some ''Boston''"] a b
    by blast
qed

text \<open>
  Claim C9. When the source is unavailable the listing does not depend on the location
  argument: the location only travels in the parameters of the remote request.
\<close>

theorem unavailable_ignores_location: "\<not> isApiAvailable cfg r \<Longrightarrow> getHospitalsByLocation cfg r s location = getHospitalsByLocation cfg r s location'"
  by (simp add: getHospitalsByLocation_def)

theorem unavailable_ignores_location_witness:
  "getHospitalsByLocation keyConfig downRemote demoStore (Some ''Boston'')
     = getHospitalsByLocation keyConfig downRemote demoStore None"
proof -
  have u: "\<not> isApiAvailable keyConfig downRemote"
    by (simp add: isApiAvailable_def keyConfig_def downRemote_def)
  show ?thesis
    by (rule unavailable_ignores_location [OF u])
qed

subsection \<open>No duplicate hospitals\<close>












lemma sync_twice_example:
  "length (mappedFrom (repeatSync MemStorage [(keyConfig, liveRemote [], None)]) ''42'') = 1
   \<and> length (mappedFrom
        (repeatSync MemStorage
           [(keyConfig, liveRemote [], None), (keyConfig, liveRemote [], Some ''Salem'')]) ''42'') = 1"
  by code_simp

subsection \<open>Bed ingestion\<close>

text \<open>
  For a remote entry whose lower-cased type is neither \<open>constructor\<close> nor \<open>__proto__\<close>, the
  bed type is the last stored one of that name (compared without case), or a new one named as
  the entry; and the first bed of the pair has its two counts overwritten, or a new bed is
  appended with them.
\<close>

lemma bedTypeMapOf_snoc:
  "bedTypeMapOf (ts @ [t]) = obj_set (bedTypeMapOf ts) (toLowerCase (bedType_name t)) (bedType_id t)"
  by (simp add: bedTypeMapOf_def)

lemma bedTypeMapOf_ordinary_key:
  assumes "k \<noteq> ''constructor''" and "k \<noteq> ''__proto__''"
  shows "obj_get (bedTypeMapOf ts) k =
     (case List.find (\<lambda>t. toLowerCase (bedType_name t) = k) (rev ts) of
        None \<Rightarrow> None
      | Some t \<Rightarrow> Some (Num (bedType_id t)))"
proof (induction ts rule: rev_induct)
  case Nil
  show ?case
    using assms by (simp add: bedTypeMapOf_def obj_get_def)
next
  case (snoc t ts)
  show ?case
    using snoc assms
    by (auto simp add: bedTypeMapOf_snoc obj_get_def obj_set_def split: option.splits)
qed

lemma resolveBedType_ordinary_key:
  assumes "toLowerCase ty \<noteq> ''constructor''" and "toLowerCase ty \<noteq> ''__proto__''"
  shows "resolveBedType (bedTypeMapOf (getAllBedTypes s)) s ty =
     (case List.find (\<lambda>t. toLowerCase (bedType_name t) = toLowerCase ty) (rev (getAllBedTypes s)) of
        Some t \<Rightarrow>
          if bedType_id t \<noteq> 0 then (Num (bedType_id t), bedTypeMapOf (getAllBedTypes s), s)
          else (Num (bedTypeCurrentId s),
                obj_set (bedTypeMapOf (getAllBedTypes s)) (toLowerCase ty) (bedTypeCurrentId s),
                snd (createBedType s \<lparr>ibt_name = ty, ibt_description = None, ibt_icon = None\<rparr>))
      | None \<Rightarrow>
          (Num (bedTypeCurrentId s),
           obj_set (bedTypeMapOf (getAllBedTypes s)) (toLowerCase ty) (bedTypeCurrentId s),
           snd (createBedType s \<lparr>ibt_name = ty, ibt_description = None, ibt_icon = None\<rparr>)))"
  using bedTypeMapOf_ordinary_key [OF assms, of "getAllBedTypes s"]
  by (simp add: resolveBedType_def createBedType_def Let_def split: option.splits)

lemma storeApiBed_overwrites_or_creates:
  assumes "keyedById (beds s)"
  shows "beds (storeApiBed s hospitalId bedTypeId ab) =
     (case getBedByHospitalAndType s hospitalId bedTypeId of
        Some existingBed \<Rightarrow>
          Map_set (bed_id existingBed)
            (existingBed\<lparr>bed_totalBeds := apiBed_total ab,
                         bed_availableBeds := apiBed_available ab\<rparr>) (beds s)
      | None \<Rightarrow>
          Map_set (bedCurrentId s)
            \<lparr>bed_id = bedCurrentId s, bed_hospitalId = hospitalId, bed_bedTypeId = bedTypeId,
             bed_totalBeds = apiBed_total ab, bed_availableBeds = apiBed_available ab,
             bed_pricePerNight = None\<rparr> (beds s))"
proof (cases "getBedByHospitalAndType s hospitalId bedTypeId")
  case None
  then show ?thesis
    by (simp add: storeApiBed_def createBed_def Let_def)
next
  case (Some e)
  have "getBed s (bed_id e) = Some e"
    using find_keyed_get [OF assms] Some by (simp add: getBed_def getBedByHospitalAndType_def)
  then show ?thesis
    using Some by (simp add: storeApiBed_def updateBed_def Let_def spreadBed_def)
qed

text \<open>
  Claim C8 at a remote entry of type \<open>constructor\<close>. The fresh store has no bed type of that
  name, yet the lookup in the plain object finds the inherited \<open>Object.prototype.constructor\<close>,
  so the sync creates no bed type and stores a bed whose \<open>bedTypeId\<close> is that function
  instead of the id of a bed type.
\<close>

theorem sync_inherited_key_evaluation:
  "getBedTypeByName MemStorage ''constructor'' = None
   \<and> bedTypes (snd (getHospitalsByLocation keyConfig
        (liveRemote [\<lparr>apiBed_type = ''constructor'', apiBed_total = Fin 3, apiBed_available = Fin 2\<rparr>])
        MemStorage None)) = bedTypes MemStorage
   \<and> Map_values (beds (snd (getHospitalsByLocation keyConfig
        (liveRemote [\<lparr>apiBed_type = ''constructor'', apiBed_total = Fin 3, apiBed_available = Fin 2\<rparr>])
        MemStorage None)))
      = [\<lparr>bed_id = 1, bed_hospitalId = 1, bed_bedTypeId = ObjectConstructor,
          bed_totalBeds = Fin 3, bed_availableBeds = Fin 2, bed_pricePerNight = None\<rparr>]"
  by code_simp

end
